theory Spec2Isabelle
  imports Complex_Main
begin

section \<open>The two-person call hook\<close>

text \<open>
  A shallow embedding of the React hook \<^verbatim>\<open>useTwoPersonCall\<close> (the revision that imports
  \<^verbatim>\<open>../utils/translation\<close>) and of \<^verbatim>\<open>translateText\<close>.  The hook's \<^verbatim>\<open>useState\<close> cells and
  \<^verbatim>\<open>useRef\<close> cells are the fields of one record; every callback of the hook is a function
  from that record to the updated record.  What the browser decides (whether a promise
  resolves or rejects, what \<^verbatim>\<open>JSON.parse\<close> returns, which state a channel is in) is an
  explicit argument of the function that observes it.

  A call of \<^verbatim>\<open>createOffer\<close> runs up to its first \<^verbatim>\<open>await\<close> and is then kept in the state as a
  suspended call, which a later event resumes; anything can happen in between, another
  call of \<^verbatim>\<open>createOffer\<close> included.  The other \<^verbatim>\<open>async\<close> callbacks are modelled as one step
  that receives the outcome of each promise it awaits.
\<close>

subsection \<open>JavaScript strings and values\<close>

text \<open>A JavaScript string is a sequence of UTF-16 code units.\<close>

type_synonym jsstring = "nat list"

abbreviation js :: "string \<Rightarrow> jsstring" where
  "js s \<equiv> map of_char s"

text \<open>A JSON number is the double that \<^verbatim>\<open>JSON.parse\<close> makes of its literal: one of the two
  zeros, a finite value other than zero, or an infinity (\<open>True\<close>: the negative one).\<close>

datatype js_number = PositiveZero | NegativeZero | NonZero rat | Infinity bool

text \<open>What \<^verbatim>\<open>JSON.parse\<close> can return; an object is the list of its own properties.\<close>

datatype json =
    JNull
  | JBool bool
  | JNum js_number
  | JStr jsstring
  | JArr "json list"
  | JObj "(jsstring \<times> json) list"

text \<open>A JavaScript value read from parsed JSON: \<open>None\<close> is \<^verbatim>\<open>undefined\<close>.\<close>

type_synonym jsval = "json option"

text \<open>The white space and line terminator code units that \<^verbatim>\<open>String.prototype.trim\<close>
  removes and that \<^verbatim>\<open>\s\<close> matches.\<close>

definition isWhiteSpace :: "nat \<Rightarrow> bool" where
  "isWhiteSpace c \<longleftrightarrow>
     c = 9 \<or> c = 10 \<or> c = 11 \<or> c = 12 \<or> c = 13 \<or> c = 32 \<or> c = 160 \<or> c = 5760 \<or>
     (8192 \<le> c \<and> c \<le> 8202) \<or> c = 8232 \<or> c = 8233 \<or> c = 8239 \<or> c = 8287 \<or>
     c = 12288 \<or> c = 65279"

definition trim :: "jsstring \<Rightarrow> jsstring" where
  "trim s = rev (dropWhile isWhiteSpace (rev (dropWhile isWhiteSpace s)))"

fun startsWith :: "jsstring \<Rightarrow> jsstring \<Rightarrow> bool" where
  "startsWith s [] = True"
| "startsWith [] (p # ps) = False"
| "startsWith (c # cs) (p # ps) = (c = p \<and> startsWith cs ps)"

fun includes_str :: "jsstring \<Rightarrow> jsstring \<Rightarrow> bool" where
  "includes_str [] p = (p = [])"
| "includes_str (c # cs) p = (startsWith (c # cs) p \<or> includes_str cs p)"

text \<open>A value that an awaited promise rejected with, or that a call threw:
  \<^verbatim>\<open>err instanceof Error\<close> and \<^verbatim>\<open>err.message\<close>.\<close>

datatype thrown = ErrorWithMessage jsstring | NotAnError

fun messageIncludes :: "thrown \<Rightarrow> jsstring \<Rightarrow> bool" where
  "messageIncludes (ErrorWithMessage m) p = includes_str m p"
| "messageIncludes NotAnError p = False"

datatype 'a settled = Resolved 'a | Rejected thrown

subsection \<open>The data model\<close>

datatype Role = Host | Guest

datatype CallPhase = Idle | MediaReady | WaitingOffer | WaitingAnswer | Connected | Ended

datatype sdp_type = Offer | Answer | Pranswer | Rollback

record session_description =
  sd_type :: sdp_type
  sdp :: jsstring

datatype signaling_state =
  Stable | HaveLocalOffer | HaveRemoteOffer | HaveLocalPranswer | HaveRemotePranswer
  | SignalingClosed

datatype ice_connection_state =
  IceNew | IceChecking | IceConnected | IceCompleted | IceFailed | IceDisconnected | IceClosed

datatype ice_gathering_state = GatheringNew | Gathering | GatheringComplete

datatype track_kind = Audio | Video

record track =
  track_id :: nat
  track_kind :: track_kind

type_synonym media_stream = "track list"

text \<open>The part of an \<^verbatim>\<open>RTCPeerConnection\<close> that the hook reads or changes.  A connection is
  identified by a number, which plays the role of the object identity: the handlers of a
  connection and the calls that work on it hold the object, not \<^verbatim>\<open>pcRef\<close>.\<close>

record peer_connection =
  connectionId :: nat
  localDescription :: "session_description option"
  remoteDescription :: "session_description option"
  signalingState :: signaling_state
  iceConnectionState :: ice_connection_state
  iceGatheringState :: ice_gathering_state
  senders :: "track option list"

datatype channel_state = ChConnecting | ChOpen | ChClosing | ChClosed

record data_channel =
  label :: jsstring
  readyState :: channel_state

record caption_payload =
  kind :: jsstring
  caption_text :: jsstring
  language :: jsstring
  timestamp :: nat

text \<open>The messages the hook passes to \<^verbatim>\<open>setError\<close>, one constructor per message, in the
  order of their appearance in the hook.\<close>

datatype ui_error =
    NetworkNegotiationError
      \<comment> \<open>Network error while negotiating connection. Please check your network and try again.\<close>
  | MediaAccessError
      \<comment> \<open>Unable to access camera or microphone. Please grant permissions and try again.\<close>
  | OnlyHostCanCreateOffer
      \<comment> \<open>Only the host can create an offer.\<close>
  | CodeAlreadyGenerated
      \<comment> \<open>Connection code already generated. Please use the existing code or refresh the page.\<close>
  | OfferAlreadyCreated
      \<comment> \<open>Offer already created. Please use the existing connection code.\<close>
  | FailedToCreateOffer
      \<comment> \<open>Failed to create offer. Please refresh and try again.\<close>
  | OnlyGuestCanUseCode
      \<comment> \<open>Only the guest can use a host's connection code.\<close>
  | CodeAlreadyApplied
      \<comment> \<open>Connection code already applied. Please wait or refresh the page.\<close>
  | InvalidOfferFormat
      \<comment> \<open>Invalid connection data format. Error: ... complete offer without any extra text.\<close>
  | ConnectionInProgress
      \<comment> \<open>Connection already in progress. Please refresh and try again.\<close>
  | CodeLooksInvalid
      \<comment> \<open>The connection code looks invalid. Please check and try again.\<close>
  | OnlyHostCanApplyResponse
      \<comment> \<open>Only the host can apply a guest's response code.\<close>
  | ResponseAlreadyApplied
      \<comment> \<open>Response code already applied. Connection should be active.\<close>
  | GenerateCodeFirst
      \<comment> \<open>Please generate a connection code first.\<close>
  | InvalidAnswerFormat
      \<comment> \<open>Invalid connection data format. Error: ... complete response without any extra text.\<close>
  | InvalidConnectionState signaling_state
      \<comment> \<open>Invalid connection state: (the signaling state). Please generate a new connection code.\<close>
  | ConnectionStateError
      \<comment> \<open>Connection state error. Please generate a new connection code and try again.\<close>
  | ResponseLooksInvalid
      \<comment> \<open>The response code looks invalid. Please check and try again.\<close>

text \<open>How far a call of one of the hook's functions has come: it returned without calling
  \<^verbatim>\<open>setError\<close>, it returned after \<^verbatim>\<open>setError(e)\<close>, or it is suspended at a promise that has
  not settled.\<close>

datatype call_result = Done | Failed ui_error | Pending

text \<open>Where a call of \<^verbatim>\<open>createOffer\<close> is suspended: at \<^verbatim>\<open>await pc.createOffer()\<close>, at
  \<^verbatim>\<open>await pc.setLocalDescription(offer)\<close> with the offer it holds, or at
  \<^verbatim>\<open>await waitForIceGatheringComplete(pc)\<close>.\<close>

datatype offer_stage =
    AwaitsOffer
  | AwaitsLocalDescription session_description
  | AwaitsGathering

text \<open>What a pending \<^verbatim>\<open>setTimeout\<close> callback will do, with the variables its closure holds.\<close>

datatype timer_action =
    TranslateCaption jsstring jsval jsstring
      \<comment> \<open>300 ms: text, sourceLanguage, translationLanguage\<close>
  | RetrySendCaption jsstring jsstring
      \<comment> \<open>500 ms: latest, captionsLanguage\<close>
  | StartRecognition nat
      \<comment> \<open>1000 ms: the wait at the head of startRecognitionWithDelay\<close>
  | RetryStartRecognition nat
      \<comment> \<open>2000 ms: startRecognitionWithDelay once more\<close>
  | RestartRecognition nat
      \<comment> \<open>500 ms: the restart in onend\<close>
  | RestartRecognitionLate nat
      \<comment> \<open>2000 ms: the second restart attempt in onend\<close>

text \<open>
  The state of the hook.  First the \<^verbatim>\<open>useState\<close> cells, then the \<^verbatim>\<open>useRef\<close> cells (a video
  element that is not mounted is \<open>None\<close>, a mounted one is \<open>Some srcObject\<close>), then what
  the hook has done to the world outside it: the timers it has set, the translation
  requests that are in flight, the tracks it has stopped, the connections it has
  closed, the caption messages it has sent, and the recognizers it has created.
  A recognizer is identified by a number; that number plays the role of the
  object identity in \<^verbatim>\<open>recognitionRef.current === recognition\<close>.  Last, the calls of
  \<^verbatim>\<open>createOffer\<close> that are suspended, each with its number, the connection it works on and
  the place where it is suspended.
\<close>

record call_state =
  role :: "Role option"
  phase :: CallPhase
  error :: "ui_error option"
  isBusy :: bool
  offerPayload :: jsstring
  answerPayload :: jsstring
  captionsSupported :: bool
  captionsLanguage :: jsstring
  localCaption :: jsstring
  remoteCaption :: jsval
  remoteCaptionTranslated :: jsstring
  translationLanguage :: jsstring
  isTranslating :: bool
  remoteCaptionLanguageRef :: jsval
  translationTimeoutRef :: "nat option"
  localVideoRef :: "media_stream option option"
  remoteVideoRef :: "media_stream option option"
  pcRef :: "peer_connection option"
  localStreamRef :: "media_stream option"
  dataChannelRef :: "data_channel option"
  recognitionRef :: "nat option"
  roleRef :: "Role option"
  timers :: "(nat \<times> timer_action) list"
  nextTimer :: nat
  inflight :: "(nat \<times> jsstring) list"
  nextRequest :: nat
  endedTracks :: "nat set"
  closedConnections :: "peer_connection list"
  outbox :: "caption_payload list"
  nextRecognition :: nat
  runningRecognitions :: "nat list"
  detachedRecognitions :: "nat set"
  nextConnection :: nat
  offerCalls :: "(nat \<times> nat \<times> offer_stage) list"
  nextCall :: nat

definition initial :: call_state where
  "initial = \<lparr>
     role = None, phase = Idle, error = None, isBusy = False,
     offerPayload = [], answerPayload = [],
     captionsSupported = False, captionsLanguage = js ''en-US'',
     localCaption = [], remoteCaption = Some (JStr []), remoteCaptionTranslated = [],
     translationLanguage = js ''en'', isTranslating = False,
     remoteCaptionLanguageRef = Some (JStr (js ''en-US'')), translationTimeoutRef = None,
     localVideoRef = Some None, remoteVideoRef = Some None,
     pcRef = None, localStreamRef = None, dataChannelRef = None,
     recognitionRef = None, roleRef = None,
     timers = [], nextTimer = 1, inflight = [], nextRequest = 1,
     endedTracks = {}, closedConnections = [], outbox = [],
     nextRecognition = 1, runningRecognitions = [], detachedRecognitions = {},
     nextConnection = 1, offerCalls = [], nextCall = 1 \<rparr>"


subsection \<open>Timers\<close>

definition setTimeout :: "timer_action \<Rightarrow> call_state \<Rightarrow> nat \<times> call_state" where
  "setTimeout a s =
     (nextTimer s, s\<lparr>timers := timers s @ [(nextTimer s, a)], nextTimer := Suc (nextTimer s)\<rparr>)"

definition clearTimeout :: "nat \<Rightarrow> call_state \<Rightarrow> call_state" where
  "clearTimeout t s = s\<lparr>timers := filter (\<lambda>p. fst p \<noteq> t) (timers s)\<rparr>"

subsection \<open>Releasing resources\<close>

text \<open>\<^verbatim>\<open>stopRecognition\<close>: the handlers of the current recognizer are removed, it is stopped
  and the reference is dropped; the local caption is cleared in every case.\<close>

definition stopRecognition :: "call_state \<Rightarrow> call_state" where
  "stopRecognition s =
     (case recognitionRef s of
        Some r \<Rightarrow>
          s\<lparr>detachedRecognitions := insert r (detachedRecognitions s),
            runningRecognitions := removeAll r (runningRecognitions s),
            recognitionRef := None\<rparr>
      | None \<Rightarrow> s)\<lparr>localCaption := []\<rparr>"

definition resetState :: "call_state \<Rightarrow> call_state" where
  "resetState s =
     (let s1 = s\<lparr>phase := Idle, role := None, roleRef := None, error := None, isBusy := False,
                  offerPayload := [], answerPayload := [], localCaption := [],
                  remoteCaption := Some (JStr []), remoteCaptionTranslated := [],
                  remoteCaptionLanguageRef := Some (JStr (js ''en-US''))\<rparr>
      in case translationTimeoutRef s1 of
           Some t \<Rightarrow> (clearTimeout t s1)\<lparr>translationTimeoutRef := None\<rparr>
         | None \<Rightarrow> s1)"

definition senderTracks :: "peer_connection \<Rightarrow> track list" where
  "senderTracks pc = [t. Some t \<leftarrow> senders pc]"

definition stopTracks :: "track list \<Rightarrow> call_state \<Rightarrow> call_state" where
  "stopTracks ts s = s\<lparr>endedTracks := endedTracks s \<union> set (map track_id ts)\<rparr>"

definition clearSrcObject :: "media_stream option option \<Rightarrow> media_stream option option" where
  "clearSrcObject v = (case v of None \<Rightarrow> None | Some src \<Rightarrow> Some None)"

definition cleanupPeerConnection :: "call_state \<Rightarrow> call_state" where
  "cleanupPeerConnection s =
     (let s1 = (case pcRef s of
                  Some pc \<Rightarrow>
                    (stopTracks (senderTracks pc) s)
                      \<lparr>closedConnections := closedConnections s @ [pc]\<rparr>
                | None \<Rightarrow> s);
          s2 = s1\<lparr>pcRef := None\<rparr>;
          s3 = (case localStreamRef s2 of Some stream \<Rightarrow> stopTracks stream s2 | None \<Rightarrow> s2);
          s4 = s3\<lparr>localStreamRef := None\<rparr>;
          s5 = s4\<lparr>localVideoRef := clearSrcObject (localVideoRef s4),
                  remoteVideoRef := clearSrcObject (remoteVideoRef s4)\<rparr>;
          s6 = s5\<lparr>dataChannelRef := None\<rparr>
      in stopRecognition s6)"

definition hangUp :: "call_state \<Rightarrow> call_state" where
  "hangUp s = resetState (cleanupPeerConnection s)"

subsection \<open>The peer connection and its event handlers\<close>

definition newPeerConnection :: "nat \<Rightarrow> peer_connection" where
  "newPeerConnection c =
     \<lparr>connectionId = c, localDescription = None, remoteDescription = None,
      signalingState = Stable, iceConnectionState = IceNew, iceGatheringState = GatheringNew,
      senders = []\<rparr>"

definition addTrack :: "track \<Rightarrow> peer_connection \<Rightarrow> peer_connection" where
  "addTrack t pc = pc\<lparr>senders := senders pc @ [Some t]\<rparr>"

definition ensurePeerConnection :: "call_state \<Rightarrow> peer_connection \<times> call_state" where
  "ensurePeerConnection s =
     (case pcRef s of
        Some pc \<Rightarrow> (pc, s)
      | None \<Rightarrow>
          (let new = newPeerConnection (nextConnection s);
               pc = (case localStreamRef s of
                       Some stream \<Rightarrow> fold addTrack stream new
                     | None \<Rightarrow> new)
           in (pc, s\<lparr>pcRef := Some pc, nextConnection := Suc (nextConnection s)\<rparr>)))"

text \<open>\<^verbatim>\<open>pc.oniceconnectionstatechange\<close> of the connection \<open>c\<close>: its transport has moved to \<open>st\<close>.
  The handler reads the state of the connection it was installed on and sets the phase;
  it is never removed, and it does so whether or not \<open>c\<close> is still the connection in
  \<^verbatim>\<open>pcRef\<close>.\<close>

definition oniceconnectionstatechange ::
  "nat \<Rightarrow> ice_connection_state \<Rightarrow> call_state \<Rightarrow> call_state" where
  "oniceconnectionstatechange c st s =
     (let s1 = (case pcRef s of
                  Some pc \<Rightarrow>
                    if connectionId pc = c
                    then s\<lparr>pcRef := Some (pc\<lparr>iceConnectionState := st\<rparr>)\<rparr> else s
                | None \<Rightarrow> s)
      in if st = IceConnected \<or> st = IceCompleted then s1\<lparr>phase := Connected\<rparr>
         else if st = IceDisconnected \<or> st = IceFailed \<or> st = IceClosed
           then s1\<lparr>phase := Ended\<rparr>
         else s1)"

definition onicecandidateerror :: "call_state \<Rightarrow> call_state" where
  "onicecandidateerror s = s\<lparr>error := Some NetworkNegotiationError\<rparr>"

text \<open>\<^verbatim>\<open>pc.ontrack\<close>: \<open>stream\<close> is the first element of \<^verbatim>\<open>event.streams\<close>, if there is one.\<close>

definition ontrack :: "media_stream option \<Rightarrow> call_state \<Rightarrow> call_state" where
  "ontrack stream s =
     (case (remoteVideoRef s, stream) of
        (Some src, Some st) \<Rightarrow> s\<lparr>remoteVideoRef := Some (Some st)\<rparr>
      | _ \<Rightarrow> s)"

text \<open>\<^verbatim>\<open>pc.ondatachannel\<close>: the part that decides which channel the hook keeps.\<close>

definition ondatachannel :: "data_channel \<Rightarrow> call_state \<Rightarrow> call_state" where
  "ondatachannel channel s =
     (if label channel \<noteq> js ''captions'' then s
      else if dataChannelRef s = None then s\<lparr>dataChannelRef := Some channel\<rparr>
      else s)"

subsection \<open>Local media and role selection\<close>

text \<open>What \<^verbatim>\<open>navigator.mediaDevices.getUserMedia\<close> does: it resolves with a stream, it
  rejects, or the permission prompt is never answered.\<close>

datatype media_outcome = MediaGranted media_stream | MediaDenied | MediaPending

definition startLocalMedia :: "media_outcome \<Rightarrow> call_state \<Rightarrow> call_result \<times> call_state" where
  "startLocalMedia m s =
     (if localStreamRef s \<noteq> None then (Done, s\<lparr>phase := MediaReady\<rparr>)
      else
        (case m of
           MediaGranted stream \<Rightarrow>
             (Done,
              s\<lparr>localStreamRef := Some stream,
                localVideoRef :=
                  (case localVideoRef s of None \<Rightarrow> None | Some src \<Rightarrow> Some (Some stream)),
                phase := MediaReady, isBusy := False\<rparr>)
         | MediaDenied \<Rightarrow>
             (Failed MediaAccessError, s\<lparr>error := Some MediaAccessError, isBusy := False\<rparr>)
         | MediaPending \<Rightarrow> (Pending, s\<lparr>isBusy := True\<rparr>)))"

definition startAsHost :: "media_outcome \<Rightarrow> call_state \<Rightarrow> call_result \<times> call_state" where
  "startAsHost m s =
     (case startLocalMedia m (s\<lparr>role := Some Host, roleRef := Some Host\<rparr>) of
        (Pending, s1) \<Rightarrow> (Pending, s1)
      | (res, s1) \<Rightarrow> (res, s1\<lparr>phase := WaitingOffer\<rparr>))"

definition startAsGuest :: "media_outcome \<Rightarrow> call_state \<Rightarrow> call_result \<times> call_state" where
  "startAsGuest m s =
     (case startLocalMedia m (s\<lparr>role := Some Guest, roleRef := Some Guest\<rparr>) of
        (Pending, s1) \<Rightarrow> (Pending, s1)
      | (res, s1) \<Rightarrow> (res, s1\<lparr>phase := WaitingOffer\<rparr>))"

subsection \<open>The signaling payload\<close>

text \<open>\<^verbatim>\<open>RTCSessionDescription.toJSON\<close> and the conversion of a parsed value to a session
  description that \<^verbatim>\<open>new RTCSessionDescription(init)\<close> performs.  A value that is no
  object, whose \<^verbatim>\<open>type\<close> is none of the four type names, or whose \<^verbatim>\<open>sdp\<close> is present and
  not a string, gives no description (the browser throws, or rejects the description
  when it is applied).\<close>

definition typeName :: "sdp_type \<Rightarrow> jsstring" where
  "typeName t =
     (case t of Offer \<Rightarrow> js ''offer'' | Answer \<Rightarrow> js ''answer''
      | Pranswer \<Rightarrow> js ''pranswer'' | Rollback \<Rightarrow> js ''rollback'')"

definition typeOfName :: "jsstring \<Rightarrow> sdp_type option" where
  "typeOfName n =
     (if n = js ''offer'' then Some Offer
      else if n = js ''answer'' then Some Answer
      else if n = js ''pranswer'' then Some Pranswer
      else if n = js ''rollback'' then Some Rollback
      else None)"

definition descriptionToJson :: "session_description \<Rightarrow> json" where
  "descriptionToJson d = JObj [(js ''type'', JStr (typeName (sd_type d))), (js ''sdp'', JStr (sdp d))]"

definition toDescription :: "json \<Rightarrow> session_description option" where
  "toDescription v =
     (case v of
        JObj props \<Rightarrow>
          (case map_of props (js ''type'') of
             Some (JStr n) \<Rightarrow>
               (case typeOfName n of
                  Some t \<Rightarrow>
                    (case map_of props (js ''sdp'') of
                       None \<Rightarrow> Some \<lparr>sd_type = t, sdp = []\<rparr>
                     | Some (JStr x) \<Rightarrow> Some \<lparr>sd_type = t, sdp = x\<rparr>
                     | Some other \<Rightarrow> None)
                | None \<Rightarrow> None)
           | _ \<Rightarrow> None)
      | _ \<Rightarrow> None)"

text \<open>The clean-up that both \<^verbatim>\<open>applyRemoteOfferAndCreateAnswer\<close> and \<^verbatim>\<open>applyRemoteAnswer\<close>
  run on the pasted text before \<^verbatim>\<open>JSON.parse\<close>: \<^verbatim>\<open>trim()\<close>, removal of a leading U+FEFF, and
  the first match of the regular expression \<^verbatim>\<open>/\{[\s\S]*\}/\<close>.  The expression is greedy:
  its match runs from the first opening brace to the last closing brace after it.\<close>

definition stripBOM :: "jsstring \<Rightarrow> jsstring" where
  "stripBOM s = (case s of [] \<Rightarrow> [] | c # cs \<Rightarrow> if c = 65279 then cs else s)"

definition matchBraces :: "jsstring \<Rightarrow> jsstring option" where
  "matchBraces s =
     (case dropWhile (\<lambda>c. c \<noteq> 123) s of
        [] \<Rightarrow> None
      | opening # rest \<Rightarrow>
          (case rev (dropWhile (\<lambda>c. c \<noteq> 125) (rev rest)) of
             [] \<Rightarrow> None
           | closing \<Rightarrow> Some (opening # closing)))"

definition cleanPayload :: "jsstring \<Rightarrow> jsstring" where
  "cleanPayload remote =
     (let cleaned = stripBOM (trim remote)
      in case matchBraces cleaned of Some jsonMatch \<Rightarrow> jsonMatch | None \<Rightarrow> cleaned)"

text \<open>\<^verbatim>\<open>JSON.parse\<close> is the argument \<open>parse\<close>; \<open>None\<close> is a thrown \<^verbatim>\<open>SyntaxError\<close>.\<close>

definition parsePayload :: "(jsstring \<Rightarrow> json option) \<Rightarrow> jsstring \<Rightarrow> json option" where
  "parsePayload parse remote = parse (cleanPayload remote)"

subsection \<open>Offer and answer\<close>

text \<open>What the browser does during one call of \<^verbatim>\<open>applyRemoteOfferAndCreateAnswer\<close> or
  \<^verbatim>\<open>applyRemoteAnswer\<close>: the outcome of \<^verbatim>\<open>pc.createAnswer()\<close>, of \<^verbatim>\<open>pc.setLocalDescription\<close>, of
  \<^verbatim>\<open>pc.setRemoteDescription\<close>, and the SDP of the local description once candidate
  gathering is complete (\<open>None\<close>: gathering never completes).\<close>

record negotiation =
  descriptionCreated :: "session_description settled"
  localDescriptionSet :: "unit settled"
  remoteDescriptionSet :: "unit settled"
  gathered :: "jsstring option"

definition addMissingTracks :: "media_stream \<Rightarrow> peer_connection \<Rightarrow> peer_connection" where
  "addMissingTracks stream pc =
     fold (\<lambda>t p. if Some t \<in> set (senders p) then p else addTrack t p) stream pc"

definition captionsChannel :: data_channel where
  "captionsChannel = \<lparr>label = js ''captions'', readyState = ChConnecting\<rparr>"

definition failWith :: "ui_error \<Rightarrow> call_state \<Rightarrow> call_result \<times> call_state" where
  "failWith e s = (Failed e, s\<lparr>error := Some e\<rparr>)"

text \<open>The same, inside a \<^verbatim>\<open>try\<close> whose \<^verbatim>\<open>finally\<close> clause is \<^verbatim>\<open>setIsBusy(false)\<close>.\<close>

definition failBusy :: "ui_error \<Rightarrow> call_state \<Rightarrow> call_result \<times> call_state" where
  "failBusy e s = (Failed e, s\<lparr>error := Some e, isBusy := False\<rparr>)"

text \<open>\<^verbatim>\<open>createOffer\<close>, from the call to its first \<^verbatim>\<open>await\<close>: the guards, the connection, the
  caption channel and the tracks; then \<^verbatim>\<open>pc.createOffer()\<close> is called and the call is
  suspended.\<close>

definition createOffer :: "call_state \<Rightarrow> call_result \<times> call_state" where
  "createOffer s =
     (if role s \<noteq> Some Host then failWith OnlyHostCanCreateOffer s
      else if offerPayload s \<noteq> [] then failWith CodeAlreadyGenerated s
      else
        (case ensurePeerConnection (s\<lparr>isBusy := True\<rparr>) of
           (pc, s1) \<Rightarrow>
             if localDescription pc \<noteq> None then failBusy OfferAlreadyCreated s1
             else
               (let s2 = (if dataChannelRef s1 = None \<and> role s = Some Host
                          then s1\<lparr>dataChannelRef := Some captionsChannel\<rparr> else s1);
                    pc1 = (case localStreamRef s2 of
                             Some localStream \<Rightarrow> addMissingTracks localStream pc
                           | None \<Rightarrow> pc);
                    s3 = s2\<lparr>pcRef := Some pc1\<rparr>
                in (Pending,
                    s3\<lparr>offerCalls := offerCalls s3 @ [(nextCall s3, connectionId pc1, AwaitsOffer)],
                       nextCall := Suc (nextCall s3)\<rparr>))))"

text \<open>The end of \<^verbatim>\<open>createOffer\<close>, after \<^verbatim>\<open>waitForIceGatheringComplete\<close>: the payload is made of
  the local description that the connection \<open>pc\<close> of the call has by now; then the
  \<^verbatim>\<open>finally\<close> clause.\<close>

definition finishOffer ::
  "(json \<Rightarrow> jsstring) \<Rightarrow> peer_connection \<Rightarrow> call_state \<Rightarrow> call_state" where
  "finishOffer stringify pc s =
     (case localDescription pc of
        Some withIce \<Rightarrow> s\<lparr>offerPayload := stringify (descriptionToJson withIce)\<rparr>
      | None \<Rightarrow> s)\<lparr>isBusy := False\<rparr>"

text \<open>What a promise that a suspended call of \<^verbatim>\<open>createOffer\<close> awaits can settle with.\<close>

datatype offer_outcome =
    OfferCreated session_description
  | LocalDescriptionSet
  | PromiseRejected thrown

definition suspendedAt ::
  "nat \<Rightarrow> offer_stage \<Rightarrow> (nat \<times> nat \<times> offer_stage) list \<Rightarrow> (nat \<times> nat \<times> offer_stage) list" where
  "suspendedAt call stage calls =
     map (\<lambda>p. if fst p = call then (call, fst (snd p), stage) else p) calls"

definition returned ::
  "nat \<Rightarrow> (nat \<times> nat \<times> offer_stage) list \<Rightarrow> (nat \<times> nat \<times> offer_stage) list" where
  "returned call calls = filter (\<lambda>p. fst p \<noteq> call) calls"

text \<open>The suspended call \<open>call\<close> of \<^verbatim>\<open>createOffer\<close> goes on: the promise it awaits settles
  with \<open>outcome\<close>.  When \<^verbatim>\<open>pc.createOffer()\<close> resolves, the call calls
  \<^verbatim>\<open>pc.setLocalDescription(offer)\<close> and is suspended again.  When that resolves, the
  connection has the offer as its local description; \<^verbatim>\<open>waitForIceGatheringComplete\<close>
  resolves at once if gathering is complete, and the call runs to its end; otherwise
  the call waits for the connection's \<^verbatim>\<open>icegatheringstatechange\<close> event.  A rejected promise
  leads to the \<^verbatim>\<open>catch\<close> clause.  A connection that the hook has closed resolves no promise,
  and no promise settles with an outcome of another kind: such events change nothing.\<close>

definition offerSettles ::
  "(json \<Rightarrow> jsstring) \<Rightarrow> nat \<Rightarrow> offer_outcome \<Rightarrow> call_state \<Rightarrow> call_result \<times> call_state" where
  "offerSettles stringify call outcome s =
     (case map_of (offerCalls s) call of
        None \<Rightarrow> (Pending, s)
      | Some (c, stage) \<Rightarrow>
          (case stage of
             AwaitsOffer \<Rightarrow>
               (case outcome of
                  OfferCreated offer \<Rightarrow>
                    if map_option connectionId (pcRef s) = Some c
                    then (Pending,
                          s\<lparr>offerCalls :=
                              suspendedAt call (AwaitsLocalDescription offer) (offerCalls s)\<rparr>)
                    else (Pending, s)
                | LocalDescriptionSet \<Rightarrow> (Pending, s)
                | PromiseRejected err \<Rightarrow>
                    failBusy FailedToCreateOffer (s\<lparr>offerCalls := returned call (offerCalls s)\<rparr>))
           | AwaitsLocalDescription offer \<Rightarrow>
               (case outcome of
                  OfferCreated other \<Rightarrow> (Pending, s)
                | LocalDescriptionSet \<Rightarrow>
                    (case pcRef s of
                       None \<Rightarrow> (Pending, s)
                     | Some pc \<Rightarrow>
                         if connectionId pc \<noteq> c then (Pending, s)
                         else
                           (let pc1 = pc\<lparr>localDescription := Some offer,
                                          signalingState := HaveLocalOffer\<rparr>;
                                s1 = s\<lparr>pcRef := Some pc1\<rparr>
                            in if iceGatheringState pc1 = GatheringComplete
                               then (Done,
                                     finishOffer stringify pc1
                                       (s1\<lparr>offerCalls := returned call (offerCalls s1)\<rparr>))
                               else (Pending,
                                     s1\<lparr>offerCalls :=
                                          suspendedAt call AwaitsGathering (offerCalls s1)\<rparr>)))
                | PromiseRejected err \<Rightarrow>
                    failBusy FailedToCreateOffer (s\<lparr>offerCalls := returned call (offerCalls s)\<rparr>))
           | AwaitsGathering \<Rightarrow> (Pending, s)))"

text \<open>The connection \<open>c\<close> has gathered its candidates: its gathering state is complete and
  its local description, if it has one, has the SDP \<open>candidates\<close>.  Every call of
  \<^verbatim>\<open>createOffer\<close> that waits for this (the listener \<^verbatim>\<open>checkState\<close>) runs to its end.\<close>

definition waitsForGathering :: "nat \<Rightarrow> nat \<times> nat \<times> offer_stage \<Rightarrow> bool" where
  "waitsForGathering c p \<longleftrightarrow> fst (snd p) = c \<and> snd (snd p) = AwaitsGathering"

definition gatheringCompletes ::
  "(json \<Rightarrow> jsstring) \<Rightarrow> nat \<Rightarrow> jsstring \<Rightarrow> call_state \<Rightarrow> call_state" where
  "gatheringCompletes stringify c candidates s =
     (case pcRef s of
        None \<Rightarrow> s
      | Some pc \<Rightarrow>
          if connectionId pc \<noteq> c then s
          else
            (let pc1 = pc\<lparr>localDescription :=
                            map_option (\<lambda>d. d\<lparr>sdp := candidates\<rparr>) (localDescription pc),
                          iceGatheringState := GatheringComplete\<rparr>;
                 s1 = s\<lparr>pcRef := Some pc1\<rparr>
             in if filter (waitsForGathering c) (offerCalls s1) = [] then s1
                else finishOffer stringify pc1
                       (s1\<lparr>offerCalls :=
                            filter (\<lambda>p. \<not> waitsForGathering c p) (offerCalls s1)\<rparr>)))"

definition offerCatch :: "thrown \<Rightarrow> ui_error" where
  "offerCatch err =
     (if messageIncludes err (js ''InvalidStateError'') then ConnectionInProgress
      else CodeLooksInvalid)"

definition connectedOrCompleted :: "peer_connection \<Rightarrow> bool" where
  "connectedOrCompleted pc \<longleftrightarrow>
     iceConnectionState pc = IceConnected \<or> iceConnectionState pc = IceCompleted"

definition applyRemoteOfferAndCreateAnswer ::
  "(jsstring \<Rightarrow> json option) \<Rightarrow> (json \<Rightarrow> jsstring) \<Rightarrow> jsstring \<Rightarrow> negotiation \<Rightarrow>
     call_state \<Rightarrow> call_result \<times> call_state" where
  "applyRemoteOfferAndCreateAnswer parse stringify remoteOffer env s =
     (if role s \<noteq> Some Guest then failWith OnlyGuestCanUseCode s
      else
        (case ensurePeerConnection (s\<lparr>isBusy := True\<rparr>) of
           (pc, s1) \<Rightarrow>
             if remoteDescription pc \<noteq> None then failBusy CodeAlreadyApplied s1
             else
               (case parsePayload parse remoteOffer of
                  None \<Rightarrow> failBusy InvalidOfferFormat s1
                | Some offer \<Rightarrow>
                    (case toDescription offer of
                       None \<Rightarrow> failBusy CodeLooksInvalid s1
                     | Some d \<Rightarrow>
                         (case remoteDescriptionSet env of
                            Rejected err \<Rightarrow> failBusy (offerCatch err) s1
                          | Resolved u \<Rightarrow>
                              (let pc1 = pc\<lparr>remoteDescription := Some d,
                                             signalingState := HaveRemoteOffer\<rparr>;
                                   s2 = s1\<lparr>pcRef := Some pc1\<rparr>
                               in case descriptionCreated env of
                                    Rejected err \<Rightarrow> failBusy (offerCatch err) s2
                                  | Resolved answer \<Rightarrow>
                                      (case localDescriptionSet env of
                                         Rejected err \<Rightarrow> failBusy (offerCatch err) s2
                                       | Resolved u \<Rightarrow>
                                           (let pc2 = pc1\<lparr>localDescription := Some answer,
                                                          signalingState := Stable\<rparr>
                                            in case gathered env of
                                                 None \<Rightarrow> (Pending, s2\<lparr>pcRef := Some pc2\<rparr>)
                                               | Some candidates \<Rightarrow>
                                                   (let pc3 = pc2\<lparr>localDescription :=
                                                                    Some (answer\<lparr>sdp := candidates\<rparr>),
                                                                  iceGatheringState :=
                                                                    GatheringComplete\<rparr>;
                                                        s3 = s2\<lparr>pcRef := Some pc3\<rparr>;
                                                        s4 = (case localDescription pc3 of
                                                                Some withIce \<Rightarrow>
                                                                  s3\<lparr>answerPayload :=
                                                                       stringify
                                                                         (descriptionToJson withIce)\<rparr>
                                                              | None \<Rightarrow> s3);
                                                        s5 = s4\<lparr>phase := WaitingAnswer\<rparr>;
                                                        s6 = (if connectedOrCompleted pc3
                                                              then s5\<lparr>phase := Connected\<rparr>
                                                              else s5)
                                                    in (Done, s6\<lparr>isBusy := False\<rparr>))))))))))"

definition answerCatch :: "thrown \<Rightarrow> ui_error" where
  "answerCatch err =
     (case err of
        ErrorWithMessage m \<Rightarrow>
          if includes_str m (js ''InvalidStateError'') \<or> includes_str m (js ''wrong state'')
          then ConnectionStateError else ResponseLooksInvalid
      | NotAnError \<Rightarrow> ResponseLooksInvalid)"

definition applyRemoteAnswer ::
  "(jsstring \<Rightarrow> json option) \<Rightarrow> jsstring \<Rightarrow> negotiation \<Rightarrow> call_state \<Rightarrow>
     call_result \<times> call_state" where
  "applyRemoteAnswer parse remoteAnswer env s =
     (if role s \<noteq> Some Host then failWith OnlyHostCanApplyResponse s
      else
        (case ensurePeerConnection (s\<lparr>isBusy := True\<rparr>) of
           (pc, s1) \<Rightarrow>
             if remoteDescription pc \<noteq> None then
               failBusy ResponseAlreadyApplied
                 (if connectedOrCompleted pc then s1\<lparr>phase := Connected\<rparr> else s1)
             else if localDescription pc = None then failBusy GenerateCodeFirst s1
             else
               (case parsePayload parse remoteAnswer of
                  None \<Rightarrow> failBusy InvalidAnswerFormat s1
                | Some answer \<Rightarrow>
                    if signalingState pc \<noteq> HaveLocalOffer
                    then failBusy (InvalidConnectionState (signalingState pc)) s1
                    else
                      (case toDescription answer of
                         None \<Rightarrow> failBusy ResponseLooksInvalid s1
                       | Some d \<Rightarrow>
                           (case remoteDescriptionSet env of
                              Rejected err \<Rightarrow> failBusy (answerCatch err) s1
                            | Resolved u \<Rightarrow>
                                (Done,
                                 s1\<lparr>pcRef := Some (pc\<lparr>remoteDescription := Some d,
                                                      signalingState := Stable\<rparr>),
                                    phase := Connected, isBusy := False\<rparr>))))))"


subsection \<open>Receiving captions\<close>

text \<open>Reading one of the properties \<^verbatim>\<open>kind\<close>, \<^verbatim>\<open>text\<close> or \<^verbatim>\<open>language\<close> of a parsed value
  other than \<^verbatim>\<open>null\<close>: an object gives its own property, every other value gives
  \<^verbatim>\<open>undefined\<close>.  Reading a property of \<^verbatim>\<open>null\<close> throws, which \<open>onmessage\<close> handles itself.\<close>

definition property :: "json \<Rightarrow> jsstring \<Rightarrow> jsval" where
  "property v name = (case v of JObj props \<Rightarrow> map_of props name | _ \<Rightarrow> None)"

definition truthy :: "jsval \<Rightarrow> bool" where
  "truthy v =
     (case v of
        None \<Rightarrow> False
      | Some JNull \<Rightarrow> False
      | Some (JBool b) \<Rightarrow> b
      | Some (JNum n) \<Rightarrow> n \<noteq> PositiveZero \<and> n \<noteq> NegativeZero
      | Some (JStr x) \<Rightarrow> x \<noteq> []
      | Some (JArr xs) \<Rightarrow> True
      | Some (JObj props) \<Rightarrow> True)"

text \<open>\<^verbatim>\<open>translateRemoteCaption\<close>, in a closure that holds the translation language \<open>lang\<close>.
  When \<open>text\<close> is not a string, \<^verbatim>\<open>text.trim()\<close> throws inside the \<^verbatim>\<open>async\<close> function, whose
  promise nobody awaits: nothing happens.\<close>

definition translateRemoteCaption :: "jsstring \<Rightarrow> jsval \<Rightarrow> jsval \<Rightarrow> call_state \<Rightarrow> call_state" where
  "translateRemoteCaption lang txt sourceLanguage s =
     (case txt of
        Some (JStr t) \<Rightarrow>
          if trim t = [] \<or> lang = js ''en'' then s\<lparr>remoteCaptionTranslated := []\<rparr>
          else
            (let s1 = (case translationTimeoutRef s of
                         Some pending \<Rightarrow> clearTimeout pending s
                       | None \<Rightarrow> s)
             in case setTimeout (TranslateCaption t sourceLanguage lang) s1 of
                  (timer, s2) \<Rightarrow> s2\<lparr>translationTimeoutRef := Some timer\<rparr>)
      | _ \<Rightarrow> s)"

text \<open>\<^verbatim>\<open>channel.onmessage\<close> (the handler that \<^verbatim>\<open>ensurePeerConnection\<close> installs for the guest
  and the one that \<^verbatim>\<open>createOffer\<close> installs for the host have the same body).  \<open>dat\<close> is
  \<^verbatim>\<open>String(ev.data)\<close>; \<open>lang\<close> is the value of \<^verbatim>\<open>translationLanguage\<close> in the closure that
  installed the handler.\<close>

definition onmessage ::
  "(jsstring \<Rightarrow> json option) \<Rightarrow> jsstring \<Rightarrow> jsstring \<Rightarrow> call_state \<Rightarrow> call_state" where
  "onmessage parse lang dat s =
     (case parse dat of
        None \<Rightarrow> s
      | Some JNull \<Rightarrow> s
      | Some payload \<Rightarrow>
          if property payload (js ''kind'') = Some (JStr (js ''caption'')) then
            (let s1 = s\<lparr>remoteCaption := property payload (js ''text''),
                        remoteCaptionLanguageRef := property payload (js ''language'')\<rparr>
             in if lang \<noteq> [] \<and> lang \<noteq> js ''en''
                then translateRemoteCaption lang (property payload (js ''text''))
                       (property payload (js ''language'')) s1
                else s1\<lparr>remoteCaptionTranslated := []\<rparr>)
          else s)"

text \<open>The effect that depends on \<^verbatim>\<open>translationLanguage\<close>, \<^verbatim>\<open>remoteCaption\<close> and
  \<^verbatim>\<open>translateRemoteCaption\<close>: React runs it after a render in which one of them changed.\<close>

definition translationEffect :: "call_state \<Rightarrow> call_state" where
  "translationEffect s =
     (if truthy (remoteCaption s) \<and> translationLanguage s \<noteq> []
         \<and> translationLanguage s \<noteq> js ''en''
      then translateRemoteCaption (translationLanguage s) (remoteCaption s)
             (remoteCaptionLanguageRef s) s
      else s\<lparr>remoteCaptionTranslated := []\<rparr>)"

definition handleSetTranslationLanguage :: "jsstring \<Rightarrow> call_state \<Rightarrow> call_state" where
  "handleSetTranslationLanguage languageCode s = s\<lparr>translationLanguage := languageCode\<rparr>"

text \<open>\<^verbatim>\<open>Object.is\<close> on two values read from parsed JSON, the second of them parsed later than
  the first: React compares the dependencies of an effect with it.  An array or an
  object that \<^verbatim>\<open>JSON.parse\<close> has made is a new one each time.\<close>

fun sameValue :: "jsval \<Rightarrow> jsval \<Rightarrow> bool" where
  "sameValue None None = True"
| "sameValue (Some JNull) (Some JNull) = True"
| "sameValue (Some (JBool a)) (Some (JBool b)) = (a = b)"
| "sameValue (Some (JNum a)) (Some (JNum b)) = (a = b)"
| "sameValue (Some (JStr a)) (Some (JStr b)) = (a = b)"
| "sameValue v w = False"

text \<open>The receipt of a message on the caption channel, as the hook as a whole sees it: the
  handler runs, React renders, and if the remote caption is not the one of the render
  before, the effect above runs.  (Of the three dependencies of the effect the handler
  changes this one only.)\<close>

definition receiveMessage ::
  "(jsstring \<Rightarrow> json option) \<Rightarrow> jsstring \<Rightarrow> jsstring \<Rightarrow> call_state \<Rightarrow> call_state" where
  "receiveMessage parse lang dat s =
     (let s1 = onmessage parse lang dat s
      in if sameValue (remoteCaption s) (remoteCaption s1) then s1 else translationEffect s1)"

subsection \<open>Translating\<close>

text \<open>A string is well formed when each of its surrogate code units is half of a pair: a
  high surrogate followed by a low one.  \<^verbatim>\<open>encodeURIComponent\<close> throws a \<^verbatim>\<open>URIError\<close> on every
  other string.\<close>

definition isHighSurrogate :: "nat \<Rightarrow> bool" where
  "isHighSurrogate c \<longleftrightarrow> 55296 \<le> c \<and> c \<le> 56319"

definition isLowSurrogate :: "nat \<Rightarrow> bool" where
  "isLowSurrogate c \<longleftrightarrow> 56320 \<le> c \<and> c \<le> 57343"

fun isWellFormed :: "jsstring \<Rightarrow> bool" where
  "isWellFormed [] = True"
| "isWellFormed [c] = (\<not> isHighSurrogate c \<and> \<not> isLowSurrogate c)"
| "isWellFormed (c # d # cs) =
     (if isHighSurrogate c then isLowSurrogate d \<and> isWellFormed cs
      else \<not> isLowSurrogate c \<and> isWellFormed (d # cs))"

text \<open>\<^verbatim>\<open>translateText\<close> up to its \<^verbatim>\<open>fetch\<close>: it returns the text as it is, it throws
  (\<^verbatim>\<open>sourceLanguage.split\<close> on a value that is no string, before the \<^verbatim>\<open>try\<close>), or it sends a
  request for the two base language codes.  The address of the request is built inside
  the \<^verbatim>\<open>try\<close>: when \<^verbatim>\<open>encodeURIComponent(text)\<close> throws, nothing is sent and the \<^verbatim>\<open>catch\<close> clause
  returns the text.\<close>

datatype translate_step = Returns jsstring | Throws | Fetches jsstring jsstring

definition baseLanguage :: "jsstring \<Rightarrow> jsstring" where
  "baseLanguage tag = takeWhile (\<lambda>c. c \<noteq> 45) tag"

definition translateText :: "jsstring \<Rightarrow> jsval \<Rightarrow> jsstring \<Rightarrow> translate_step" where
  "translateText txt sourceLanguage targetLanguage =
     (if sourceLanguage = Some (JStr targetLanguage) \<or> trim txt = [] then Returns txt
      else
        (case sourceLanguage of
           Some (JStr source) \<Rightarrow>
             if baseLanguage source = baseLanguage targetLanguage then Returns txt
             else if \<not> isWellFormed txt then Returns txt
             else Fetches (baseLanguage source) (baseLanguage targetLanguage)
         | _ \<Rightarrow> Throws))"

text \<open>What comes back from the request: \<open>FetchFailed\<close> when \<^verbatim>\<open>fetch\<close> rejects, the response
  is not ok, its body is no JSON or reading the result throws (all caught by
  \<^verbatim>\<open>translateText\<close>); \<open>Unrecognised\<close> when the body is not an array whose first element is
  an array; \<open>Translated t\<close> when it is, \<open>t\<close> being the joined first elements.\<close>

datatype fetch_outcome = FetchFailed | Unrecognised | Translated jsstring

definition translateTextResult :: "jsstring \<Rightarrow> fetch_outcome \<Rightarrow> jsstring" where
  "translateTextResult txt outcome =
     (case outcome of
        FetchFailed \<Rightarrow> txt
      | Unrecognised \<Rightarrow> txt
      | Translated translatedText \<Rightarrow> if translatedText = [] then txt else translatedText)"

text \<open>The callback of the 300 ms timer of \<^verbatim>\<open>translateRemoteCaption\<close>, up to the point
  where \<^verbatim>\<open>translateText\<close> returns or suspends at its \<^verbatim>\<open>fetch\<close>.\<close>

definition translateNow :: "jsstring \<Rightarrow> jsval \<Rightarrow> jsstring \<Rightarrow> call_state \<Rightarrow> call_state" where
  "translateNow txt sourceLanguage lang s =
     (let s1 = s\<lparr>isTranslating := True\<rparr>
      in case translateText txt sourceLanguage lang of
           Returns translated \<Rightarrow>
             s1\<lparr>remoteCaptionTranslated := translated, isTranslating := False\<rparr>
         | Throws \<Rightarrow> s1\<lparr>remoteCaptionTranslated := [], isTranslating := False\<rparr>
         | Fetches source target \<Rightarrow>
             s1\<lparr>inflight := inflight s1 @ [(nextRequest s1, txt)],
                nextRequest := Suc (nextRequest s1)\<rparr>)"

text \<open>The rest of that callback, when the request \<open>request\<close> comes back.\<close>

definition translationSettles :: "nat \<Rightarrow> fetch_outcome \<Rightarrow> call_state \<Rightarrow> call_state" where
  "translationSettles request outcome s =
     (case map_of (inflight s) request of
        None \<Rightarrow> s
      | Some txt \<Rightarrow>
          s\<lparr>inflight := filter (\<lambda>p. fst p \<noteq> request) (inflight s),
            remoteCaptionTranslated := translateTextResult txt outcome,
            isTranslating := False\<rparr>)"

subsection \<open>Sending captions\<close>

record speech_result =
  transcript :: jsstring
  isFinal :: bool

record speech_event =
  resultIndex :: nat
  results :: "speech_result list"

text \<open>What the browser decides when a timer callback or a recognizer handler runs:
  \<^verbatim>\<open>Date.now()\<close>, whether \<^verbatim>\<open>send\<close> throws, and whether \<^verbatim>\<open>recognition.start()\<close> throws.\<close>

datatype start_outcome = Started | StartThrows thrown

record browser =
  now :: nat
  sendThrows :: bool
  startOutcome :: start_outcome

definition channelOpen :: "call_state \<Rightarrow> bool" where
  "channelOpen s =
     (case dataChannelRef s of Some channel \<Rightarrow> readyState channel = ChOpen | None \<Rightarrow> False)"

definition send :: "browser \<Rightarrow> jsstring \<Rightarrow> jsstring \<Rightarrow> call_state \<Rightarrow> call_state" where
  "send b latest captionsLang s =
     (if sendThrows b then s
      else s\<lparr>outbox := outbox s @
             [\<lparr>kind = js ''caption'', caption_text = latest, language = captionsLang,
               timestamp = now b\<rparr>]\<rparr>)"

definition sendCaption :: "browser \<Rightarrow> jsstring \<Rightarrow> jsstring \<Rightarrow> call_state \<Rightarrow> call_state" where
  "sendCaption b latest captionsLang s =
     (if channelOpen s then send b latest captionsLang s
      else snd (setTimeout (RetrySendCaption latest captionsLang) s))"

text \<open>The callback of the 500 ms timer of \<^verbatim>\<open>sendCaption\<close>.\<close>

definition sendCaptionRetry :: "browser \<Rightarrow> jsstring \<Rightarrow> jsstring \<Rightarrow> call_state \<Rightarrow> call_state" where
  "sendCaptionRetry b latest captionsLang s =
     (if channelOpen s then send b latest captionsLang s else s)"

text \<open>\<^verbatim>\<open>recognition.onresult\<close>, in a closure that holds \<^verbatim>\<open>captionsLanguage\<close>.\<close>

definition latestTranscript :: "speech_event \<Rightarrow> jsstring" where
  "latestTranscript event =
     foldl (\<lambda>latest result. trim (transcript result)) [] (drop (resultIndex event) (results event))"

definition onresult :: "browser \<Rightarrow> jsstring \<Rightarrow> speech_event \<Rightarrow> call_state \<Rightarrow> call_state" where
  "onresult b captionsLang event s =
     (let latest = latestTranscript event
      in if latest = [] then s
         else
           (let s1 = s\<lparr>localCaption := latest\<rparr>
            in case rev (results event) of
                 [] \<Rightarrow> s1
               | lastResult # earlier \<Rightarrow>
                   if isFinal lastResult then sendCaption b latest captionsLang s1 else s1))"

definition channelStateChanges :: "channel_state \<Rightarrow> call_state \<Rightarrow> call_state" where
  "channelStateChanges st s =
     (case dataChannelRef s of
        Some channel \<Rightarrow> s\<lparr>dataChannelRef := Some (channel\<lparr>readyState := st\<rparr>)\<rparr>
      | None \<Rightarrow> s)"


subsection \<open>The recognizer\<close>

text \<open>The handlers and timer callbacks of a recognizer are created by the effect only in
  its branch \<^verbatim>\<open>phase === "connected"\<close>, and \<^verbatim>\<open>phase\<close> is a constant of that render: inside
  them, \<^verbatim>\<open>phase\<close> is always this value.\<close>

definition capturedPhase :: CallPhase where
  "capturedPhase = Connected"

text \<open>The first audio track of the local stream exists and is live (\<^verbatim>\<open>verifyMicrophone\<close>,
  and the same test inside \<^verbatim>\<open>onend\<close>).\<close>

definition verifyMicrophone :: "call_state \<Rightarrow> bool" where
  "verifyMicrophone s =
     (case localStreamRef s of
        None \<Rightarrow> False
      | Some stream \<Rightarrow>
          (case filter (\<lambda>t. track_kind t = Audio) stream of
             [] \<Rightarrow> False
           | audioTrack # others \<Rightarrow> track_id audioTrack \<notin> endedTracks s))"

text \<open>\<^verbatim>\<open>recognition.start()\<close> on the recognizer \<open>r\<close> when it does not throw.\<close>

definition started :: "nat \<Rightarrow> call_state \<Rightarrow> call_state" where
  "started r s = s\<lparr>runningRecognitions := runningRecognitions s @ [r]\<rparr>"

text \<open>\<^verbatim>\<open>startRecognitionWithDelay\<close> for the recognizer \<open>r\<close>: first the 1000 ms wait, then
  (\<open>startRecognitionNow\<close>) the rest of the function.\<close>

definition startRecognitionWithDelay :: "nat \<Rightarrow> call_state \<Rightarrow> call_state" where
  "startRecognitionWithDelay r s = snd (setTimeout (StartRecognition r) s)"

definition startRecognitionNow :: "browser \<Rightarrow> nat \<Rightarrow> call_state \<Rightarrow> call_state" where
  "startRecognitionNow b r s =
     (if capturedPhase \<noteq> Connected \<or> recognitionRef s \<noteq> None then s
      else if \<not> verifyMicrophone s then snd (setTimeout (RetryStartRecognition r) s)
      else
        (case startOutcome b of
           Started \<Rightarrow> (started r s)\<lparr>recognitionRef := Some r\<rparr>
         | StartThrows err \<Rightarrow>
             if messageIncludes err (js ''audio'')
             then snd (setTimeout (RetryStartRecognition r) s)
             else s\<lparr>recognitionRef := None\<rparr>))"

definition retryStartRecognition :: "nat \<Rightarrow> call_state \<Rightarrow> call_state" where
  "retryStartRecognition r s =
     (if capturedPhase = Connected \<and> recognitionRef s = None
      then startRecognitionWithDelay r s else s)"

text \<open>\<^verbatim>\<open>recognition.onend\<close> of the recognizer \<open>r\<close>, and the callbacks of its two timers.\<close>

definition onend :: "nat \<Rightarrow> call_state \<Rightarrow> call_state" where
  "onend r s =
     (if capturedPhase = Connected \<and> recognitionRef s = Some r
      then snd (setTimeout (RestartRecognition r) s)
      else s\<lparr>recognitionRef := None\<rparr>)"

definition restartRecognitionLate :: "browser \<Rightarrow> nat \<Rightarrow> call_state \<Rightarrow> call_state" where
  "restartRecognitionLate b r s =
     (if capturedPhase = Connected \<and> recognitionRef s = Some r then
        (case startOutcome b of
           Started \<Rightarrow> started r s
         | StartThrows err \<Rightarrow> s\<lparr>recognitionRef := None\<rparr>)
      else s)"

definition restartRecognition :: "browser \<Rightarrow> nat \<Rightarrow> call_state \<Rightarrow> call_state" where
  "restartRecognition b r s =
     (if capturedPhase = Connected \<and> recognitionRef s = Some r then
        (if verifyMicrophone s then
           (case startOutcome b of
              Started \<Rightarrow> started r s
            | StartThrows err \<Rightarrow> s\<lparr>recognitionRef := None\<rparr>)
         else snd (setTimeout (RestartRecognitionLate r) s))
      else s)"

definition onerror :: "jsstring \<Rightarrow> call_state \<Rightarrow> call_state" where
  "onerror errorType s =
     (if errorType = js ''network'' \<or> errorType = js ''no-speech'' \<or> errorType = js ''aborted''
      then s
      else if errorType = js ''audio-capture'' then s
      else stopRecognition s)"

text \<open>The effect that starts and stops recognition; \<open>ctor\<close> says whether \<^verbatim>\<open>window\<close> and a
  \<^verbatim>\<open>SpeechRecognition\<close> constructor exist.\<close>

definition recognitionEffect :: "bool \<Rightarrow> call_state \<Rightarrow> call_state" where
  "recognitionEffect ctor s =
     (if \<not> captionsSupported s \<or> \<not> ctor then stopRecognition s
      else if phase s = Connected then
        (let s1 = (if recognitionRef s \<noteq> None then stopRecognition s else s);
             recognition = nextRecognition s1
         in startRecognitionWithDelay recognition (s1\<lparr>nextRecognition := Suc recognition\<rparr>))
      else stopRecognition s)"

text \<open>What the recognizer \<open>r\<close> does to the hook: a handler that \<^verbatim>\<open>stopRecognition\<close> has set to
  \<^verbatim>\<open>null\<close> is not called.  The \<^verbatim>\<open>end\<close> event is the end of a run: a recognizer that is not
  running (it was never started, or it has ended and was not started again) has no end.\<close>

definition recognitionEnds :: "nat \<Rightarrow> call_state \<Rightarrow> call_state" where
  "recognitionEnds r s =
     (if r \<notin> set (runningRecognitions s) then s
      else
        (let s1 = s\<lparr>runningRecognitions := removeAll r (runningRecognitions s)\<rparr>
         in if r \<in> detachedRecognitions s1 then s1 else onend r s1))"

definition recognitionError :: "nat \<Rightarrow> jsstring \<Rightarrow> call_state \<Rightarrow> call_state" where
  "recognitionError r errorType s =
     (if r \<in> detachedRecognitions s then s else onerror errorType s)"

definition recognitionResult ::
  "nat \<Rightarrow> browser \<Rightarrow> jsstring \<Rightarrow> speech_event \<Rightarrow> call_state \<Rightarrow> call_state" where
  "recognitionResult r b captionsLang event s =
     (if r \<in> detachedRecognitions s then s else onresult b captionsLang event s)"

subsection \<open>Timers firing, and the hook as a whole\<close>

definition timerFires :: "browser \<Rightarrow> nat \<Rightarrow> call_state \<Rightarrow> call_state" where
  "timerFires b timer s =
     (case map_of (timers s) timer of
        None \<Rightarrow> s
      | Some action \<Rightarrow>
          (let s1 = s\<lparr>timers := filter (\<lambda>p. fst p \<noteq> timer) (timers s)\<rparr>
           in case action of
                TranslateCaption txt sourceLanguage lang \<Rightarrow> translateNow txt sourceLanguage lang s1
              | RetrySendCaption latest captionsLang \<Rightarrow> sendCaptionRetry b latest captionsLang s1
              | StartRecognition r \<Rightarrow> startRecognitionNow b r s1
              | RetryStartRecognition r \<Rightarrow> retryStartRecognition r s1
              | RestartRecognition r \<Rightarrow> restartRecognition b r s1
              | RestartRecognitionLate r \<Rightarrow> restartRecognitionLate b r s1))"

text \<open>Everything that can happen to the hook: a call of one of the functions it returns,
  a promise that a suspended call awaits, an event of a peer connection, of the data
  channel or of a recognizer, a timer, a translation response, a run of one of its
  effects.\<close>

datatype event =
    StartAsHost media_outcome
  | StartAsGuest media_outcome
  | CreateOffer
  | OfferSettles nat offer_outcome
  | IceGatheringComplete nat jsstring
  | ApplyRemoteOfferAndCreateAnswer jsstring negotiation
  | ApplyRemoteAnswer jsstring negotiation
  | HangUp
  | SetCaptionsLanguage jsstring
  | SetTranslationLanguage jsstring
  | SetCaptionsSupported bool
  | IceConnectionStateChange nat ice_connection_state
  | IceCandidateError
  | TrackEvent "media_stream option"
  | DataChannelEvent data_channel
  | ChannelStateChange channel_state
  | MessageEvent jsstring jsstring
  | TranslationEffect
  | TranslationResponse nat fetch_outcome
  | RecognitionEffect bool
  | RecognitionEnd nat
  | RecognitionError nat jsstring
  | RecognitionResult nat browser jsstring speech_event
  | TimerFires browser nat

definition dispatch ::
  "(jsstring \<Rightarrow> json option) \<Rightarrow> (json \<Rightarrow> jsstring) \<Rightarrow> event \<Rightarrow> call_state \<Rightarrow>
     call_result \<times> call_state" where
  "dispatch parse stringify e s =
     (case e of
        StartAsHost m \<Rightarrow> startAsHost m s
      | StartAsGuest m \<Rightarrow> startAsGuest m s
      | CreateOffer \<Rightarrow> createOffer s
      | OfferSettles call outcome \<Rightarrow> offerSettles stringify call outcome s
      | IceGatheringComplete c candidates \<Rightarrow> (Done, gatheringCompletes stringify c candidates s)
      | ApplyRemoteOfferAndCreateAnswer remoteOffer env \<Rightarrow>
          applyRemoteOfferAndCreateAnswer parse stringify remoteOffer env s
      | ApplyRemoteAnswer remoteAnswer env \<Rightarrow> applyRemoteAnswer parse remoteAnswer env s
      | HangUp \<Rightarrow> (Done, hangUp s)
      | SetCaptionsLanguage languageCode \<Rightarrow> (Done, s\<lparr>captionsLanguage := languageCode\<rparr>)
      | SetTranslationLanguage languageCode \<Rightarrow> (Done, handleSetTranslationLanguage languageCode s)
      | SetCaptionsSupported supported \<Rightarrow> (Done, s\<lparr>captionsSupported := supported\<rparr>)
      | IceConnectionStateChange c st \<Rightarrow> (Done, oniceconnectionstatechange c st s)
      | IceCandidateError \<Rightarrow> (Done, onicecandidateerror s)
      | TrackEvent stream \<Rightarrow> (Done, ontrack stream s)
      | DataChannelEvent channel \<Rightarrow> (Done, ondatachannel channel s)
      | ChannelStateChange st \<Rightarrow> (Done, channelStateChanges st s)
      | MessageEvent lang dat \<Rightarrow> (Done, onmessage parse lang dat s)
      | TranslationEffect \<Rightarrow> (Done, translationEffect s)
      | TranslationResponse request outcome \<Rightarrow> (Done, translationSettles request outcome s)
      | RecognitionEffect ctor \<Rightarrow> (Done, recognitionEffect ctor s)
      | RecognitionEnd r \<Rightarrow> (Done, recognitionEnds r s)
      | RecognitionError r errorType \<Rightarrow> (Done, recognitionError r errorType s)
      | RecognitionResult r b captionsLang ev \<Rightarrow> (Done, recognitionResult r b captionsLang ev s)
      | TimerFires b timer \<Rightarrow> (Done, timerFires b timer s))"

fun run ::
  "(jsstring \<Rightarrow> json option) \<Rightarrow> (json \<Rightarrow> jsstring) \<Rightarrow> event list \<Rightarrow> call_state \<Rightarrow> call_state" where
  "run parse stringify [] s = s"
| "run parse stringify (e # es) s = run parse stringify es (snd (dispatch parse stringify e s))"


subsection \<open>The decoder that the specification describes\<close>

text \<open>For comparison with \<open>matchBraces\<close>: the first balanced brace-delimited structure of
  a text, as the specification of the signaling codec words it.  \<open>balancedRest d cs\<close> is
  the shortest prefix of \<open>cs\<close> that closes \<open>d + 1\<close> open braces.\<close>

fun balancedRest :: "nat \<Rightarrow> jsstring \<Rightarrow> jsstring option" where
  "balancedRest d [] = None"
| "balancedRest d (c # cs) =
     (if c = 125 then
        (case d of
           0 \<Rightarrow> Some [c]
         | Suc d' \<Rightarrow> map_option ((#) c) (balancedRest d' cs))
      else if c = 123 then map_option ((#) c) (balancedRest (Suc d) cs)
      else map_option ((#) c) (balancedRest d cs))"

fun specFirstBalanced :: "jsstring \<Rightarrow> jsstring option" where
  "specFirstBalanced [] = None"
| "specFirstBalanced (c # cs) =
     (if c = 123 then
        (case balancedRest 0 cs of
           Some rest \<Rightarrow> Some (c # rest)
         | None \<Rightarrow> specFirstBalanced cs)
      else specFirstBalanced cs)"

text \<open>A text is balanced when each of its closing braces closes an opening brace before
  it and no opening brace stays open.  \<open>openBraces d cs\<close> is the number of braces that are
  open after \<open>cs\<close> when \<open>d\<close> are open before it.\<close>

fun openBraces :: "nat \<Rightarrow> jsstring \<Rightarrow> nat option" where
  "openBraces d [] = Some d"
| "openBraces d (c # cs) =
     (if c = 123 then openBraces (Suc d) cs
      else if c = 125 then (case d of 0 \<Rightarrow> None | Suc d' \<Rightarrow> openBraces d' cs)
      else openBraces d cs)"

definition specBalanced :: "jsstring \<Rightarrow> bool" where
  "specBalanced x \<longleftrightarrow> openBraces 0 x = Some 0"

subsection \<open>Sample values\<close>

definition sampleStream :: media_stream where
  "sampleStream = [\<lparr>track_id = 1, track_kind = Video\<rparr>, \<lparr>track_id = 2, track_kind = Audio\<rparr>]"

definition sampleOffer :: session_description where
  "sampleOffer = \<lparr>sd_type = Offer, sdp = js ''v=0''\<rparr>"

definition sampleAnswer :: session_description where
  "sampleAnswer = \<lparr>sd_type = Answer, sdp = js ''v=0''\<rparr>"

text \<open>\<^verbatim>\<open>JSON.stringify\<close> on an object with two string members that need no escaping, and
  \<^verbatim>\<open>JSON.parse\<close> on the two texts that this gives for the sample descriptions.\<close>

definition quote :: "jsstring \<Rightarrow> jsstring" where
  "quote x = 34 # x @ [34]"

definition sampleStringify :: "json \<Rightarrow> jsstring" where
  "sampleStringify v =
     (case v of
        JObj [(k1, JStr v1), (k2, JStr v2)] \<Rightarrow>
          123 # quote k1 @ 58 # quote v1 @ 44 # quote k2 @ 58 # quote v2 @ [125]
      | _ \<Rightarrow> js ''null'')"

definition sampleCaption :: json where
  "sampleCaption =
     JObj [(js ''kind'', JStr (js ''caption'')), (js ''text'', JStr (js ''hola'')),
           (js ''language'', JStr (js ''es-ES'')), (js ''timestamp'', JNum (NonZero 1000))]"

definition sampleCaptionText :: jsstring where
  \<open>sampleCaptionText = js ''{"kind":"caption","text":"hola","language":"es-ES","timestamp":1000}''\<close>

definition sampleCaption2 :: json where
  "sampleCaption2 =
     JObj [(js ''kind'', JStr (js ''caption'')), (js ''text'', JStr (js ''adios'')),
           (js ''language'', JStr (js ''es-ES'')), (js ''timestamp'', JNum (NonZero 2000))]"

definition sampleCaptionText2 :: jsstring where
  \<open>sampleCaptionText2 = js ''{"kind":"caption","text":"adios","language":"es-ES","timestamp":2000}''\<close>

definition samplePing :: json where
  "samplePing = JObj [(js ''kind'', JStr (js ''ping''))]"

definition samplePingText :: jsstring where
  \<open>samplePingText = js ''{"kind":"ping"}''\<close>

definition sampleParse :: "jsstring \<Rightarrow> json option" where
  "sampleParse t =
     (if t = sampleStringify (descriptionToJson sampleOffer)
        then Some (descriptionToJson sampleOffer)
      else if t = sampleStringify (descriptionToJson sampleAnswer)
        then Some (descriptionToJson sampleAnswer)
      else if t = sampleCaptionText then Some sampleCaption
      else if t = sampleCaptionText2 then Some sampleCaption2
      else if t = samplePingText then Some samplePing
      else if t = js ''null'' then Some JNull
      else None)"

definition sampleNegotiation :: "session_description \<Rightarrow> negotiation" where
  "sampleNegotiation d =
     \<lparr>descriptionCreated = Resolved d, localDescriptionSet = Resolved (),
      remoteDescriptionSet = Resolved (), gathered = Some (sdp d)\<rparr>"

definition sampleBrowser :: browser where
  "sampleBrowser = \<lparr>now = 1000, sendThrows = False, startOutcome = Started\<rparr>"

text \<open>A host that has created its offer; the host just connected, with an open caption
  channel and a recognizer that waits for its start; the host in a call, once that
  recognizer runs; the same host with French as translation language and one caption
  received.  The handler of the host's channel was installed while the
  translation language was \<^verbatim>\<open>en\<close>, which is what its closure holds; the translation is
  scheduled by the effect that follows the change of the remote caption.\<close>

definition hostWithOffer :: call_state where
  "hostWithOffer =
     run sampleParse sampleStringify
       [StartAsHost (MediaGranted sampleStream), CreateOffer,
        OfferSettles 1 (OfferCreated sampleOffer), OfferSettles 1 LocalDescriptionSet,
        IceGatheringComplete 1 (sdp sampleOffer)]
       initial"

definition connectedJustNow :: call_state where
  "connectedJustNow =
     run sampleParse sampleStringify
       [ApplyRemoteAnswer (sampleStringify (descriptionToJson sampleAnswer))
          (sampleNegotiation sampleAnswer),
        IceConnectionStateChange 1 IceConnected,
        ChannelStateChange ChOpen,
        SetCaptionsSupported True,
        RecognitionEffect True]
       hostWithOffer"

definition hostConnected :: call_state where
  "hostConnected = run sampleParse sampleStringify [TimerFires sampleBrowser 1] connectedJustNow"

definition hostInCall :: call_state where
  "hostInCall =
     run sampleParse sampleStringify
       [SetTranslationLanguage (js ''fr''), TranslationEffect,
        MessageEvent (js ''en'') sampleCaptionText, TranslationEffect]
       hostConnected"

subsection \<open>Notions used in the properties\<close>

text \<open>The connection in \<^verbatim>\<open>pcRef\<close> has a local description.\<close>

definition hasLocalDescription :: "call_state \<Rightarrow> bool" where
  "hasLocalDescription s =
     (case pcRef s of Some pc \<Rightarrow> localDescription pc \<noteq> None | None \<Rightarrow> False)"

text \<open>The connection a negotiation call works on: the one in \<^verbatim>\<open>pcRef\<close>, or a new one.\<close>

definition connection :: "call_state \<Rightarrow> peer_connection" where
  "connection s = fst (ensurePeerConnection s)"

text \<open>A host that has local media and has made no call yet.  Then two calls of
  \<^verbatim>\<open>createOffer\<close>, the second made while the first is suspended at \<^verbatim>\<open>await pc.createOffer()\<close>:
  both promises resolve, each with an offer of its own; the first call sets its offer,
  gathering completes and the first call returns.  The second call is still suspended at
  \<^verbatim>\<open>await pc.setLocalDescription(offer)\<close>.\<close>

definition hostReady :: call_state where
  "hostReady = run sampleParse sampleStringify [StartAsHost (MediaGranted sampleStream)] initial"

definition sampleOffer2 :: session_description where
  "sampleOffer2 = \<lparr>sd_type = Offer, sdp = js ''v=0 (2)''\<rparr>"

definition firstOfferMade :: call_state where
  "firstOfferMade =
     run sampleParse sampleStringify
       [CreateOffer, CreateOffer,
        OfferSettles 1 (OfferCreated sampleOffer), OfferSettles 2 (OfferCreated sampleOffer2),
        OfferSettles 1 LocalDescriptionSet, IceGatheringComplete 1 (sdp sampleOffer)]
       hostReady"

text \<open>The host of \<open>hostInCall\<close> after one more call of \<^verbatim>\<open>startAsHost\<close>.\<close>

definition hostRestarted :: call_state where
  "hostRestarted =
     run sampleParse sampleStringify [StartAsHost (MediaGranted sampleStream)] hostInCall"

text \<open>Encoding and decoding a session description, as the hook does it: \<^verbatim>\<open>JSON.stringify\<close> of
  the description; the clean-up, \<^verbatim>\<open>JSON.parse\<close> and \<^verbatim>\<open>new RTCSessionDescription\<close>.\<close>

definition encodePayload :: "(json \<Rightarrow> jsstring) \<Rightarrow> session_description \<Rightarrow> jsstring" where
  "encodePayload stringify d = stringify (descriptionToJson d)"

definition decodePayload ::
  "(jsstring \<Rightarrow> json option) \<Rightarrow> jsstring \<Rightarrow> session_description option" where
  "decodePayload parse remote =
     (case parsePayload parse remote of None \<Rightarrow> None | Some v \<Rightarrow> toDescription v)"

text \<open>The encoded sample offer followed by text that contains a closing brace; an offer
  that lacks its closing brace; the encoded sample offer between a closing brace and an
  opening brace; a guest that has local media.\<close>

definition offerWithSmiley :: jsstring where
  "offerWithSmiley = sampleStringify (descriptionToJson sampleOffer) @ js '' :-}''"

definition unclosedOffer :: jsstring where
  "unclosedOffer = butlast (sampleStringify (descriptionToJson sampleOffer))"

definition strayBraces :: jsstring where
  "strayBraces = 125 # sampleStringify (descriptionToJson sampleOffer) @ [123]"

definition guestReady :: call_state where
  "guestReady =
     run sampleParse sampleStringify [StartAsGuest (MediaGranted sampleStream)] initial"

text \<open>The host of \<open>connectedJustNow\<close> hangs up while its recognizer waits for its start; then
  a new session begins, with a new local stream, and the timer of the recognizer fires.\<close>

definition sampleStream2 :: media_stream where
  "sampleStream2 = [\<lparr>track_id = 3, track_kind = Video\<rparr>, \<lparr>track_id = 4, track_kind = Audio\<rparr>]"

definition nextSession :: call_state where
  "nextSession =
     run sampleParse sampleStringify
       [HangUp, StartAsGuest (MediaGranted sampleStream2), TimerFires sampleBrowser 1]
       connectedJustNow"

text \<open>The pending timers after \<^verbatim>\<open>translateRemoteCaption\<close> has cancelled the timer in
  \<^verbatim>\<open>translationTimeoutRef\<close>, if there is one, and has set a new one for the action \<open>a\<close>.\<close>

definition rescheduled :: "timer_action \<Rightarrow> call_state \<Rightarrow> (nat \<times> timer_action) list" where
  "rescheduled a s =
     filter (\<lambda>p. Some (fst p) \<noteq> translationTimeoutRef s) (timers s) @ [(nextTimer s, a)]"

text \<open>The host of \<open>hostInCall\<close> with two translation requests in flight: the first for
  \<^verbatim>\<open>hola\<close>, the second for \<^verbatim>\<open>adios\<close>.\<close>

definition twoRequests :: call_state where
  "twoRequests =
     run sampleParse sampleStringify
       [TimerFires sampleBrowser 2, MessageEvent (js ''en'') sampleCaptionText2,
        TranslationEffect, TimerFires sampleBrowser 3]
       hostInCall"


text \<open>A caption that ends with the first half of a surrogate pair.\<close>

definition halfPair :: jsstring where
  "halfPair = js ''hola'' @ [55357]"

text \<open>A final result of the recognizer, and the caption message for it.\<close>

definition sampleUtterance :: speech_event where
  "sampleUtterance = \<lparr>resultIndex = 0, results = [\<lparr>transcript = js '' hello '', isFinal = True\<rparr>]\<rparr>"

definition sentCaption :: "browser \<Rightarrow> jsstring \<Rightarrow> jsstring \<Rightarrow> caption_payload" where
  "sentCaption b latest captionsLang =
     \<lparr>kind = js ''caption'', caption_text = latest, language = captionsLang, timestamp = now b\<rparr>"

section \<open>Properties\<close>

lemmas sample_defs =
  sampleStream_def sampleOffer_def sampleAnswer_def quote_def sampleStringify_def
  sampleCaption_def sampleCaptionText_def sampleCaption2_def sampleCaptionText2_def
  samplePing_def samplePingText_def sampleParse_def sampleNegotiation_def sampleBrowser_def
  hostConnected_def connectedJustNow_def

lemmas signaling_defs = dispatch_def startAsHost_def startAsGuest_def startLocalMedia_def createOffer_def
  offerSettles_def gatheringCompletes_def finishOffer_def suspendedAt_def returned_def
  waitsForGathering_def
  applyRemoteAnswer_def applyRemoteOfferAndCreateAnswer_def ensurePeerConnection_def failWith_def failBusy_def
  addMissingTracks_def addTrack_def newPeerConnection_def captionsChannel_def descriptionToJson_def typeName_def
  oniceconnectionstatechange_def connectedOrCompleted_def parsePayload_def cleanPayload_def toDescription_def
  typeOfName_def stripBOM_def matchBraces_def trim_def isWhiteSpace_def Let_def

lemmas caption_defs = channelStateChanges_def recognitionEffect_def stopRecognition_def
  startRecognitionWithDelay_def setTimeout_def timerFires_def startRecognitionNow_def capturedPhase_def
  verifyMicrophone_def started_def handleSetTranslationLanguage_def onmessage_def property_def
  translateRemoteCaption_def clearTimeout_def translationEffect_def truthy_def

lemmas translation_defs = translateNow_def translateText_def translationSettles_def
  translateTextResult_def baseLanguage_def isHighSurrogate_def isLowSurrogate_def

subsection \<open>Role selection\<close>

lemma startAsHost_pending:
  "fst (startAsHost m s) = Pending \<longleftrightarrow> localStreamRef s = None \<and> m = MediaPending"
  by (cases m) (simp_all add: startAsHost_def startLocalMedia_def)

lemma startAsGuest_pending:
  "fst (startAsGuest m s) = Pending \<longleftrightarrow> localStreamRef s = None \<and> m = MediaPending"
  by (cases m) (simp_all add: startAsGuest_def startLocalMedia_def)

text \<open>
  Claim C10.  Whenever a call of \<open>startAsHost\<close> or \<open>startAsGuest\<close> completes (it completes
  unless there is no local stream yet and the permission prompt is never answered), the
  phase is \<open>WaitingOffer\<close>.  In particular, when there is no local stream and media access
  is denied, the call completes with the media error set and the phase is \<open>WaitingOffer\<close>,
  not \<open>Idle\<close>.
\<close>

theorem startAs_reaches_waiting_offer:
  "(fst (startAsHost m s) \<noteq> Pending \<longrightarrow> phase (snd (startAsHost m s)) = WaitingOffer) \<and>
   (fst (startAsGuest m s) \<noteq> Pending \<longrightarrow> phase (snd (startAsGuest m s)) = WaitingOffer) \<and>
   (localStreamRef s = None \<longrightarrow>
      fst (startAsHost MediaDenied s) = Failed MediaAccessError \<and>
      error (snd (startAsHost MediaDenied s)) = Some MediaAccessError \<and>
      phase (snd (startAsHost MediaDenied s)) = WaitingOffer \<and>
      fst (startAsGuest MediaDenied s) = Failed MediaAccessError \<and>
      error (snd (startAsGuest MediaDenied s)) = Some MediaAccessError \<and>
      phase (snd (startAsGuest MediaDenied s)) = WaitingOffer)"
  by (cases m) (simp_all add: startAsHost_def startAsGuest_def startLocalMedia_def)

theorem startAs_reaches_waiting_offer_witness:
  "fst (startAsHost MediaDenied initial) \<noteq> Pending \<and>
   phase (snd (startAsHost MediaDenied initial)) = WaitingOffer \<and>
   fst (startAsGuest MediaDenied initial) \<noteq> Pending \<and>
   phase (snd (startAsGuest MediaDenied initial)) = WaitingOffer \<and>
   localStreamRef initial = None \<and>
   phase initial = Idle \<and>
   error (snd (startAsHost MediaDenied initial)) = Some MediaAccessError"
  using startAs_reaches_waiting_offer [of MediaDenied initial]
  by (simp add: startAsHost_pending startAsGuest_pending initial_def)

subsection \<open>At most one offer\<close>

lemma createOffer_offered:
  assumes "role s = Some Host" "hasLocalDescription s"
  shows "createOffer s =
           (if offerPayload s \<noteq> [] then (Failed CodeAlreadyGenerated, s\<lparr>error := Some CodeAlreadyGenerated\<rparr>)
            else (Failed OfferAlreadyCreated, s\<lparr>isBusy := False, error := Some OfferAlreadyCreated\<rparr>))"
  using assms
  by (cases s) (auto simp add: createOffer_def hasLocalDescription_def ensurePeerConnection_def failWith_def failBusy_def
      split: option.splits)

text \<open>The two guards of \<open>createOffer\<close>: a call by the host when an offer payload exists or
  the connection has a local description fails with one of the two "already offered"
  messages and changes neither the offer payload, nor the phase, nor the connection, nor
  the channel, and no call is suspended.\<close>

lemma createOffer_rejected:
  assumes "role s = Some Host" "offerPayload s \<noteq> [] \<or> hasLocalDescription s"
  shows "(fst (createOffer s) = Failed CodeAlreadyGenerated \<or>
          fst (createOffer s) = Failed OfferAlreadyCreated) \<and>
         error (snd (createOffer s)) = (case fst (createOffer s) of Failed e \<Rightarrow> Some e | _ \<Rightarrow> None) \<and>
         offerPayload (snd (createOffer s)) = offerPayload s \<and>
         phase (snd (createOffer s)) = phase s \<and>
         pcRef (snd (createOffer s)) = pcRef s \<and>
         dataChannelRef (snd (createOffer s)) = dataChannelRef s \<and>
         offerCalls (snd (createOffer s)) = offerCalls s"
proof (cases "offerPayload s \<noteq> []")
  case True
  then show ?thesis using assms(1) by (simp add: createOffer_def failWith_def)
next
  case False
  then have "hasLocalDescription s" using assms(2) by blast
  then show ?thesis using False assms(1) by (simp add: createOffer_offered)
qed

text \<open>Neither guard sees a call that is suspended before it has set the local description:
  until then the offer payload is empty and the connection has no local description.\<close>

lemma addMissingTracks_localDescription:
  "localDescription (addMissingTracks stream pc) = localDescription pc"
proof -
  have "localDescription (fold (\<lambda>t p. if Some t \<in> set (senders p) then p else addTrack t p) stream pc)
        = localDescription pc"
    by (induction stream arbitrary: pc) (simp_all add: addTrack_def)
  then show ?thesis by (simp add: addMissingTracks_def)
qed

lemma fold_addTrack_descriptions:
  "localDescription (fold addTrack stream pc) = localDescription pc"
  "remoteDescription (fold addTrack stream pc) = remoteDescription pc"
  by (induction stream arbitrary: pc) (simp_all add: addTrack_def)

lemma createOffer_guards_pass:
  assumes "role s = Some Host" "offerPayload s = []" "\<not> hasLocalDescription s"
  shows "fst (createOffer s) = Pending"
proof (cases "pcRef s")
  case None
  then show ?thesis
    using assms
    by (simp add: createOffer_def ensurePeerConnection_def Let_def fold_addTrack_descriptions
        newPeerConnection_def split: option.split)
next
  case (Some pc)
  then show ?thesis
    using assms
    by (simp add: createOffer_def ensurePeerConnection_def Let_def hasLocalDescription_def)
qed

lemma createOffer_pending_state:
  assumes "fst (createOffer s) = Pending"
  shows "role (snd (createOffer s)) = Some Host" "offerPayload (snd (createOffer s)) = []"
    "\<not> hasLocalDescription (snd (createOffer s))"
proof -
  obtain pc s1 where e: "ensurePeerConnection (s\<lparr>isBusy := True\<rparr>) = (pc, s1)"
    by (cases "ensurePeerConnection (s\<lparr>isBusy := True\<rparr>)")
  have r: "role s = Some Host" "offerPayload s = []"
    using assms by (auto simp add: createOffer_def failWith_def split: if_splits)
  have l: "localDescription pc = None"
    using assms r e by (auto simp add: createOffer_def failBusy_def split: if_splits)
  have k: "role s1 = role s" "offerPayload s1 = offerPayload s"
    using e by (auto simp add: ensurePeerConnection_def Let_def split: option.splits)
  show "role (snd (createOffer s)) = Some Host" "offerPayload (snd (createOffer s)) = []"
    "\<not> hasLocalDescription (snd (createOffer s))"
    using r e l k
    by (simp_all add: createOffer_def Let_def hasLocalDescription_def
        addMissingTracks_localDescription split: option.split)
qed

lemma createOffer_suspended:
  assumes "fst (createOffer s) = Pending"
  shows "fst (createOffer (snd (createOffer s))) = Pending"
  using createOffer_pending_state [OF assms] by (rule createOffer_guards_pass)

lemma hostWithOffer_facts:
  "role hostWithOffer = Some Host" "offerPayload hostWithOffer \<noteq> []" "hasLocalDescription hostWithOffer"
  "phase hostWithOffer = WaitingOffer"
  by (simp_all add: hostWithOffer_def initial_def sample_defs signaling_defs hasLocalDescription_def)

lemma firstOfferMade_facts:
  "offerPayload firstOfferMade = encodePayload sampleStringify sampleOffer"
  "offerCalls firstOfferMade = [(2, 1, AwaitsLocalDescription sampleOffer2)]"
  "phase firstOfferMade = WaitingOffer" "error firstOfferMade = None" "isBusy firstOfferMade = False"
  "role firstOfferMade = Some Host"
  by (simp_all add: firstOfferMade_def hostReady_def sampleOffer2_def encodePayload_def initial_def
      sample_defs signaling_defs)

text \<open>
  Claim C1 fails on the hook for calls that overlap.  The host calls \<open>createOffer\<close> twice, the
  second time while the first call is suspended at \<^verbatim>\<open>await pc.createOffer()\<close>.  The second call
  passes both guards and is suspended as well.  The first call runs to its end and sets
  the offer payload; then the second call sets its own offer as local description, runs
  to its end without an error, and replaces the offer payload: two calls of one session
  have produced an offer.
\<close>

theorem createOffer_overlapping_calls:
  "role hostReady = Some Host \<and>
   fst (createOffer hostReady) = Pending \<and>
   fst (createOffer (snd (createOffer hostReady))) = Pending \<and>
   offerPayload firstOfferMade = encodePayload sampleStringify sampleOffer \<and>
   offerCalls firstOfferMade = [(2, 1, AwaitsLocalDescription sampleOffer2)] \<and>
   error firstOfferMade = None \<and>
   fst (offerSettles sampleStringify 2 LocalDescriptionSet firstOfferMade) = Done \<and>
   error (snd (offerSettles sampleStringify 2 LocalDescriptionSet firstOfferMade)) = None \<and>
   offerPayload (snd (offerSettles sampleStringify 2 LocalDescriptionSet firstOfferMade))
     = encodePayload sampleStringify sampleOffer2 \<and>
   encodePayload sampleStringify sampleOffer2 \<noteq> encodePayload sampleStringify sampleOffer \<and>
   map_option localDescription (pcRef (snd (offerSettles sampleStringify 2 LocalDescriptionSet firstOfferMade)))
     = Some (Some sampleOffer2) \<and>
   offerCalls (snd (offerSettles sampleStringify 2 LocalDescriptionSet firstOfferMade)) = []"
  by (simp add: firstOfferMade_def hostReady_def sampleOffer2_def encodePayload_def initial_def
      sample_defs signaling_defs)

subsection \<open>Applying the answer\<close>

lemma connection_cases:
  "connection s = (case pcRef s of Some pc \<Rightarrow> pc
     | None \<Rightarrow> (case localStreamRef s of
                   Some stream \<Rightarrow> fold addTrack stream (newPeerConnection (nextConnection s))
                 | None \<Rightarrow> newPeerConnection (nextConnection s)))"
  by (simp add: connection_def ensurePeerConnection_def Let_def split: option.split)

lemma ensure_busy:
  "ensurePeerConnection (s\<lparr>isBusy := b\<rparr>) =
     (connection s, (snd (ensurePeerConnection s))\<lparr>isBusy := b\<rparr>)"
  by (simp add: connection_def ensurePeerConnection_def Let_def split: option.split)

lemma phase_ensure: "phase (snd (ensurePeerConnection s)) = phase s"
  by (simp add: ensurePeerConnection_def Let_def split: option.split)

lemma connection_fresh:
  "pcRef s = None \<Longrightarrow> localDescription (connection s) = None \<and> remoteDescription (connection s) = None"
  by (simp add: connection_cases fold_addTrack_descriptions newPeerConnection_def split: option.split)

text \<open>
  Claim C2, as the hook has it.  \<open>applyRemoteAnswer\<close> succeeds only for the host, on a
  connection that has a local description, no remote description and the signaling
  state \<open>HaveLocalOffer\<close>.  The checks run in this order, each with its own message: the
  role, a remote description that is already applied, a missing local offer, a payload
  that does not parse, the signaling state, a parsed payload that is no session
  description.  Every failing call leaves the phase as it was, with one exception: the
  call that finds a remote description already applied sets the phase to \<open>Connected\<close>
  when the transport is connected or completed.
\<close>

theorem applyRemoteAnswer_preconditions:
  "(fst (applyRemoteAnswer parse a env s) = Done \<longrightarrow>
      role s = Some Host \<and> localDescription (connection s) \<noteq> None \<and>
      remoteDescription (connection s) = None \<and> signalingState (connection s) = HaveLocalOffer \<and>
      pcRef s = Some (connection s) \<and>
      phase (snd (applyRemoteAnswer parse a env s)) = Connected) \<and>
   (role s \<noteq> Some Host \<longrightarrow>
      fst (applyRemoteAnswer parse a env s) = Failed OnlyHostCanApplyResponse \<and>
      phase (snd (applyRemoteAnswer parse a env s)) = phase s) \<and>
   (role s = Some Host \<and> remoteDescription (connection s) \<noteq> None \<longrightarrow>
      fst (applyRemoteAnswer parse a env s) = Failed ResponseAlreadyApplied \<and>
      phase (snd (applyRemoteAnswer parse a env s)) =
        (if connectedOrCompleted (connection s) then Connected else phase s)) \<and>
   (role s = Some Host \<and> remoteDescription (connection s) = None \<and>
    localDescription (connection s) = None \<longrightarrow>
      fst (applyRemoteAnswer parse a env s) = Failed GenerateCodeFirst \<and>
      phase (snd (applyRemoteAnswer parse a env s)) = phase s) \<and>
   (role s = Some Host \<and> remoteDescription (connection s) = None \<and>
    localDescription (connection s) \<noteq> None \<and> parsePayload parse a = None \<longrightarrow>
      fst (applyRemoteAnswer parse a env s) = Failed InvalidAnswerFormat \<and>
      phase (snd (applyRemoteAnswer parse a env s)) = phase s) \<and>
   (role s = Some Host \<and> remoteDescription (connection s) = None \<and>
    localDescription (connection s) \<noteq> None \<and> parsePayload parse a \<noteq> None \<and>
    signalingState (connection s) \<noteq> HaveLocalOffer \<longrightarrow>
      fst (applyRemoteAnswer parse a env s) =
        Failed (InvalidConnectionState (signalingState (connection s))) \<and>
      phase (snd (applyRemoteAnswer parse a env s)) = phase s) \<and>
   (role s = Some Host \<and> remoteDescription (connection s) = None \<and>
    localDescription (connection s) \<noteq> None \<and> signalingState (connection s) = HaveLocalOffer \<and>
    (\<exists>v. parsePayload parse a = Some v \<and> toDescription v = None) \<longrightarrow>
      fst (applyRemoteAnswer parse a env s) = Failed ResponseLooksInvalid \<and>
      phase (snd (applyRemoteAnswer parse a env s)) = phase s) \<and>
   (fst (applyRemoteAnswer parse a env s) \<noteq> Done \<and>
    fst (applyRemoteAnswer parse a env s) \<noteq> Failed ResponseAlreadyApplied \<longrightarrow>
      phase (snd (applyRemoteAnswer parse a env s)) = phase s)"
proof (cases "role s = Some Host")
  case False
  then show ?thesis by (simp add: applyRemoteAnswer_def failWith_def)
next
  case True
  have fresh: "pcRef s = None \<Longrightarrow> localDescription (connection s) = None"
    using connection_fresh by blast
  have some: "pcRef s = None \<or> pcRef s = Some (connection s)"
    by (cases "pcRef s") (simp_all add: connection_cases)
  show ?thesis
    using True fresh some
    by (auto simp add: applyRemoteAnswer_def ensure_busy failBusy_def phase_ensure
        split: option.splits settled.splits)
qed


lemma hostRestarted_facts:
  "role hostRestarted = Some Host" "phase hostRestarted = WaitingOffer"
  "remoteDescription (connection hostRestarted) = Some sampleAnswer"
  "connectedOrCompleted (connection hostRestarted)"
  by (simp_all add: hostRestarted_def hostInCall_def hostWithOffer_def initial_def sample_defs
      signaling_defs caption_defs connection_def)

text \<open>
  Claim C2, as the specification states it, fails: the host of \<open>hostRestarted\<close> calls
  \<open>applyRemoteAnswer\<close> once more; the call fails because the response is already applied,
  and the phase moves from \<open>WaitingOffer\<close> to \<open>Connected\<close>.
\<close>

theorem applyRemoteAnswer_changes_phase:
  "role hostRestarted = Some Host \<and>
   remoteDescription (connection hostRestarted) \<noteq> None \<and>
   phase hostRestarted = WaitingOffer \<and>
   fst (applyRemoteAnswer sampleParse (sampleStringify (descriptionToJson sampleAnswer))
          (sampleNegotiation sampleAnswer) hostRestarted) = Failed ResponseAlreadyApplied \<and>
   phase (snd (applyRemoteAnswer sampleParse (sampleStringify (descriptionToJson sampleAnswer))
          (sampleNegotiation sampleAnswer) hostRestarted)) = Connected"
  by (simp add: hostRestarted_def hostInCall_def hostWithOffer_def initial_def sample_defs
      signaling_defs caption_defs connection_def)

lemma hostWithOffer_connection:
  "localDescription (connection hostWithOffer) \<noteq> None"
  "remoteDescription (connection hostWithOffer) = None"
  "signalingState (connection hostWithOffer) = HaveLocalOffer"
  by (simp_all add: hostWithOffer_def initial_def sample_defs signaling_defs connection_def)

lemma answer_samples:
  "fst (applyRemoteAnswer sampleParse (sampleStringify (descriptionToJson sampleAnswer))
          (sampleNegotiation sampleAnswer) hostWithOffer) = Done"
  "fst (applyRemoteAnswer sampleParse [] (sampleNegotiation sampleAnswer) hostWithOffer)
     = Failed InvalidAnswerFormat"
  "fst (applyRemoteAnswer sampleParse samplePingText (sampleNegotiation sampleAnswer) hostWithOffer)
     = Failed ResponseLooksInvalid"
  by (simp_all add: hostWithOffer_def initial_def sample_defs signaling_defs)


lemma answer_samples_more:
  "fst (applyRemoteAnswer sampleParse [] (sampleNegotiation sampleAnswer) initial)
     = Failed OnlyHostCanApplyResponse"
  "role (snd (startAsHost MediaDenied initial)) = Some Host"
  "localDescription (connection (snd (startAsHost MediaDenied initial))) = None"
  "remoteDescription (connection (snd (startAsHost MediaDenied initial))) = None"
  "parsePayload sampleParse [] = None"
  "parsePayload sampleParse samplePingText = Some samplePing"
  "toDescription samplePing = None"
  "role initial \<noteq> Some Host"
  by (simp_all add: initial_def sample_defs signaling_defs connection_def)

theorem applyRemoteAnswer_preconditions_witness:
  "fst (applyRemoteAnswer sampleParse (sampleStringify (descriptionToJson sampleAnswer))
          (sampleNegotiation sampleAnswer) hostWithOffer) = Done \<and>
   signalingState (connection hostWithOffer) = HaveLocalOffer \<and>
   phase (snd (applyRemoteAnswer sampleParse (sampleStringify (descriptionToJson sampleAnswer))
          (sampleNegotiation sampleAnswer) hostWithOffer)) = Connected \<and>
   role initial \<noteq> Some Host \<and>
   phase (snd (applyRemoteAnswer sampleParse [] (sampleNegotiation sampleAnswer) initial))
     = phase initial \<and>
   role hostRestarted = Some Host \<and> remoteDescription (connection hostRestarted) \<noteq> None \<and>
   fst (applyRemoteAnswer sampleParse [] (sampleNegotiation sampleAnswer) hostRestarted)
     = Failed ResponseAlreadyApplied \<and>
   role (snd (startAsHost MediaDenied initial)) = Some Host \<and>
   remoteDescription (connection (snd (startAsHost MediaDenied initial))) = None \<and>
   localDescription (connection (snd (startAsHost MediaDenied initial))) = None \<and>
   fst (applyRemoteAnswer sampleParse [] (sampleNegotiation sampleAnswer)
          (snd (startAsHost MediaDenied initial))) = Failed GenerateCodeFirst \<and>
   role hostWithOffer = Some Host \<and> remoteDescription (connection hostWithOffer) = None \<and>
   localDescription (connection hostWithOffer) \<noteq> None \<and>
   parsePayload sampleParse [] = None \<and>
   phase (snd (applyRemoteAnswer sampleParse [] (sampleNegotiation sampleAnswer) hostWithOffer))
     = phase hostWithOffer \<and>
   parsePayload sampleParse samplePingText = Some samplePing \<and> toDescription samplePing = None \<and>
   phase (snd (applyRemoteAnswer sampleParse samplePingText (sampleNegotiation sampleAnswer)
          hostWithOffer)) = phase hostWithOffer"
proof -
  have a: "signalingState (connection hostWithOffer) = HaveLocalOffer \<and>
      phase (snd (applyRemoteAnswer sampleParse (sampleStringify (descriptionToJson sampleAnswer))
          (sampleNegotiation sampleAnswer) hostWithOffer)) = Connected"
    using applyRemoteAnswer_preconditions [of sampleParse
        "sampleStringify (descriptionToJson sampleAnswer)" "sampleNegotiation sampleAnswer"
        hostWithOffer] answer_samples(1)
    by blast
  have b: "phase (snd (applyRemoteAnswer sampleParse [] (sampleNegotiation sampleAnswer) initial))
     = phase initial"
    using applyRemoteAnswer_preconditions [of sampleParse "[]" "sampleNegotiation sampleAnswer"
        initial] answer_samples_more(8)
    by blast
  have c: "fst (applyRemoteAnswer sampleParse [] (sampleNegotiation sampleAnswer) hostRestarted)
     = Failed ResponseAlreadyApplied"
    using applyRemoteAnswer_preconditions [of sampleParse "[]" "sampleNegotiation sampleAnswer"
        hostRestarted] hostRestarted_facts
    by simp
  have d: "fst (applyRemoteAnswer sampleParse [] (sampleNegotiation sampleAnswer)
          (snd (startAsHost MediaDenied initial))) = Failed GenerateCodeFirst"
    using applyRemoteAnswer_preconditions [of sampleParse "[]" "sampleNegotiation sampleAnswer"
        "snd (startAsHost MediaDenied initial)"] answer_samples_more(2,3,4)
    by blast
  have e: "phase (snd (applyRemoteAnswer sampleParse [] (sampleNegotiation sampleAnswer)
      hostWithOffer)) = phase hostWithOffer"
    using applyRemoteAnswer_preconditions [of sampleParse "[]" "sampleNegotiation sampleAnswer"
        hostWithOffer] hostWithOffer_facts(1) hostWithOffer_connection answer_samples_more(5)
    by blast
  have f: "phase (snd (applyRemoteAnswer sampleParse samplePingText (sampleNegotiation sampleAnswer)
          hostWithOffer)) = phase hostWithOffer"
    using applyRemoteAnswer_preconditions [of sampleParse samplePingText
        "sampleNegotiation sampleAnswer" hostWithOffer] hostWithOffer_facts(1)
      hostWithOffer_connection answer_samples_more(6,7)
    by blast
  show ?thesis
    using a b c d e f
    by (simp add: answer_samples answer_samples_more hostWithOffer_facts hostWithOffer_connection
        hostRestarted_facts)
qed

subsection \<open>Hanging up\<close>

lemma cleanup_fields:
  "pcRef (cleanupPeerConnection s) = None"
  "localStreamRef (cleanupPeerConnection s) = None"
  "dataChannelRef (cleanupPeerConnection s) = None"
  "recognitionRef (cleanupPeerConnection s) = None"
  "localCaption (cleanupPeerConnection s) = []"
  "localVideoRef (cleanupPeerConnection s) = clearSrcObject (localVideoRef s)"
  "remoteVideoRef (cleanupPeerConnection s) = clearSrcObject (remoteVideoRef s)"
  by (simp_all add: cleanupPeerConnection_def stopRecognition_def stopTracks_def Let_def
      split: option.split)

lemma cleanup_released:
  assumes "pcRef s = None" "localStreamRef s = None" "dataChannelRef s = None"
    "recognitionRef s = None" "localCaption s = []"
    "clearSrcObject (localVideoRef s) = localVideoRef s"
    "clearSrcObject (remoteVideoRef s) = remoteVideoRef s"
  shows "cleanupPeerConnection s = s"
  using assms by (cases s) (simp add: cleanupPeerConnection_def stopRecognition_def)

lemma clearSrcObject_idem: "clearSrcObject (clearSrcObject v) = clearSrcObject v"
  by (simp add: clearSrcObject_def split: option.split)

lemma reset_keeps:
  "pcRef (resetState s) = pcRef s"
  "localStreamRef (resetState s) = localStreamRef s"
  "dataChannelRef (resetState s) = dataChannelRef s"
  "recognitionRef (resetState s) = recognitionRef s"
  "localVideoRef (resetState s) = localVideoRef s"
  "remoteVideoRef (resetState s) = remoteVideoRef s"
  "endedTracks (resetState s) = endedTracks s"
  "closedConnections (resetState s) = closedConnections s"
  "detachedRecognitions (resetState s) = detachedRecognitions s"
  "runningRecognitions (resetState s) = runningRecognitions s"
  by (simp_all add: resetState_def Let_def clearTimeout_def split: option.split)

lemma reset_sets:
  "phase (resetState s) = Idle" "role (resetState s) = None" "roleRef (resetState s) = None"
  "error (resetState s) = None" "isBusy (resetState s) = False"
  "offerPayload (resetState s) = []" "answerPayload (resetState s) = []"
  "localCaption (resetState s) = []" "remoteCaption (resetState s) = Some (JStr [])"
  "remoteCaptionTranslated (resetState s) = []"
  "remoteCaptionLanguageRef (resetState s) = Some (JStr (js ''en-US''))"
  "translationTimeoutRef (resetState s) = None"
  by (simp_all add: resetState_def Let_def clearTimeout_def split: option.split)

lemma reset_timer:
  "translationTimeoutRef s = Some t \<Longrightarrow> t \<notin> fst ` set (timers (resetState s))"
  by (auto simp add: resetState_def Let_def clearTimeout_def)

lemma reset_fixed:
  assumes "phase s = Idle" "role s = None" "roleRef s = None" "error s = None" "\<not> isBusy s"
    "offerPayload s = []" "answerPayload s = []" "localCaption s = []"
    "remoteCaption s = Some (JStr [])" "remoteCaptionTranslated s = []"
    "remoteCaptionLanguageRef s = Some (JStr (js ''en-US''))" "translationTimeoutRef s = None"
  shows "resetState s = s"
  using assms by (cases s) (simp add: resetState_def)

lemma cleanup_keeps:
  "phase (cleanupPeerConnection s) = phase s" "role (cleanupPeerConnection s) = role s"
  "roleRef (cleanupPeerConnection s) = roleRef s" "error (cleanupPeerConnection s) = error s"
  "isBusy (cleanupPeerConnection s) = isBusy s"
  "offerPayload (cleanupPeerConnection s) = offerPayload s"
  "answerPayload (cleanupPeerConnection s) = answerPayload s"
  "remoteCaption (cleanupPeerConnection s) = remoteCaption s"
  "remoteCaptionTranslated (cleanupPeerConnection s) = remoteCaptionTranslated s"
  "remoteCaptionLanguageRef (cleanupPeerConnection s) = remoteCaptionLanguageRef s"
  "translationTimeoutRef (cleanupPeerConnection s) = translationTimeoutRef s"
  by (simp_all add: cleanupPeerConnection_def stopRecognition_def stopTracks_def Let_def
      split: option.split)

lemma hangUp_idempotent: "hangUp (hangUp s) = hangUp s"
proof -
  let ?h = "hangUp s"
  have "cleanupPeerConnection ?h = ?h"
    by (rule cleanup_released)
       (simp_all add: hangUp_def reset_keeps reset_sets cleanup_fields clearSrcObject_idem)
  moreover have "resetState ?h = ?h"
    by (rule reset_fixed) (simp_all add: hangUp_def reset_sets)
  ultimately show ?thesis by (simp add: hangUp_def [of "hangUp s"])
qed

lemma cleanup_effects:
  "pcRef s = Some pc \<Longrightarrow> pc \<in> set (closedConnections (cleanupPeerConnection s))"
  "pcRef s = Some pc \<Longrightarrow> track_id ` set (senderTracks pc) \<subseteq> endedTracks (cleanupPeerConnection s)"
  "localStreamRef s = Some stream \<Longrightarrow> track_id ` set stream \<subseteq> endedTracks (cleanupPeerConnection s)"
  "recognitionRef s = Some r \<Longrightarrow> r \<in> detachedRecognitions (cleanupPeerConnection s)"
  "recognitionRef s = Some r \<Longrightarrow> r \<notin> set (runningRecognitions (cleanupPeerConnection s))"
  by (auto simp add: cleanupPeerConnection_def stopRecognition_def stopTracks_def Let_def
      split: option.split)

text \<open>
  Claim C4, as the hook has it.  In every state, \<open>hangUp\<close> is one step that puts the hook
  back into the initial phase \<open>Idle\<close> with no role and no payloads (not into \<open>Ended\<close>),
  and releases what the hook holds at that moment: the tracks of the senders and of the
  local stream are stopped, the connection in \<^verbatim>\<open>pcRef\<close> is closed and dropped, the channel
  is dropped, the recognizer in \<^verbatim>\<open>recognitionRef\<close>, if there is one, is stopped with its
  handlers removed, the pending translation timer is cancelled.  A second \<open>hangUp\<close> changes
  nothing.
\<close>

theorem hangUp_resets_and_releases:
  "phase (hangUp s) = Idle \<and> role (hangUp s) = None \<and>
   offerPayload (hangUp s) = [] \<and> answerPayload (hangUp s) = [] \<and>
   pcRef (hangUp s) = None \<and> localStreamRef (hangUp s) = None \<and>
   dataChannelRef (hangUp s) = None \<and> recognitionRef (hangUp s) = None \<and>
   translationTimeoutRef (hangUp s) = None \<and>
   (\<forall>pc. pcRef s = Some pc \<longrightarrow>
      pc \<in> set (closedConnections (hangUp s)) \<and>
      track_id ` set (senderTracks pc) \<subseteq> endedTracks (hangUp s)) \<and>
   (\<forall>stream. localStreamRef s = Some stream \<longrightarrow>
      track_id ` set stream \<subseteq> endedTracks (hangUp s)) \<and>
   (\<forall>r. recognitionRef s = Some r \<longrightarrow>
      r \<in> detachedRecognitions (hangUp s) \<and> r \<notin> set (runningRecognitions (hangUp s))) \<and>
   (\<forall>t. translationTimeoutRef s = Some t \<longrightarrow> t \<notin> fst ` set (timers (hangUp s))) \<and>
   hangUp (hangUp s) = hangUp s"
  using reset_timer [of "cleanupPeerConnection s"]
  by (simp add: hangUp_idempotent)
     (simp add: hangUp_def reset_keeps reset_sets cleanup_fields cleanup_effects cleanup_keeps)

lemma hostInCall_facts:
  "phase hostInCall = Connected"
  "pcRef hostInCall = Some \<lparr>connectionId = 1,
      localDescription = Some sampleOffer, remoteDescription = Some sampleAnswer,
      signalingState = Stable, iceConnectionState = IceConnected,
      iceGatheringState = GatheringComplete,
      senders = [Some \<lparr>track_id = 1, track_kind = Video\<rparr>, Some \<lparr>track_id = 2, track_kind = Audio\<rparr>]\<rparr>"
  "localStreamRef hostInCall = Some sampleStream"
  "recognitionRef hostInCall = Some 1"
  "translationTimeoutRef hostInCall = Some 2"
  "runningRecognitions hostInCall = [1]"
  "timers hostInCall = [(2, TranslateCaption (js ''hola'') (Some (JStr (js ''es-ES''))) (js ''fr''))]"
  "dataChannelRef hostInCall = Some \<lparr>label = js ''captions'', readyState = ChOpen\<rparr>"
  by (simp_all add: hostInCall_def hostWithOffer_def initial_def sample_defs signaling_defs caption_defs)

lemma connectedJustNow_facts:
  "phase connectedJustNow = Connected" "recognitionRef connectedJustNow = None"
  "timers connectedJustNow = [(1, StartRecognition 1)]"
  "runningRecognitions connectedJustNow = []" "detachedRecognitions connectedJustNow = {}"
  by (simp_all add: hostWithOffer_def initial_def sample_defs signaling_defs caption_defs)

text \<open>
  Claim C4, as the specification states it, fails in two places.  After \<open>hangUp\<close> in a
  connected call the phase is \<open>Idle\<close>, not the terminal phase \<open>Ended\<close>.  And \<open>hangUp\<close> does not
  release a recognizer that is not yet in \<^verbatim>\<open>recognitionRef\<close>: the host of \<open>connectedJustNow\<close>
  has created the recognizer 1, whose start is due in one second; after \<open>hangUp\<close> its timer
  is still pending and its handlers are in place, and in the next session, which is not
  connected, it starts and becomes the current recognizer.
\<close>

theorem hangUp_phase_is_idle:
  "phase hostInCall = Connected \<and> phase (hangUp hostInCall) = Idle \<and> phase (hangUp hostInCall) \<noteq> Ended \<and>
   recognitionRef connectedJustNow = None \<and>
   timers connectedJustNow = [(1, StartRecognition 1)] \<and>
   timers (hangUp connectedJustNow) = [(1, StartRecognition 1)] \<and>
   1 \<notin> detachedRecognitions (hangUp connectedJustNow) \<and>
   phase nextSession = WaitingOffer \<and>
   recognitionRef nextSession = Some 1 \<and>
   runningRecognitions nextSession = [1]"
  by (simp add: hostInCall_facts reset_sets hangUp_def [of hostInCall])
     (simp add: nextSession_def sampleStream2_def hangUp_def resetState_def cleanupPeerConnection_def
        stopTracks_def senderTracks_def clearSrcObject_def hostWithOffer_def initial_def
        sample_defs signaling_defs caption_defs)

theorem hangUp_resets_and_releases_witness:
  "pcRef hostInCall \<noteq> None \<and> localStreamRef hostInCall = Some sampleStream \<and>
   recognitionRef hostInCall = Some 1 \<and> translationTimeoutRef hostInCall = Some 2 \<and>
   runningRecognitions hostInCall = [1] \<and> 2 \<in> fst ` set (timers hostInCall) \<and>
   phase (hangUp hostInCall) = Idle \<and>
   {1, 2} \<subseteq> endedTracks (hangUp hostInCall) \<and>
   length (closedConnections (hangUp hostInCall)) = 1 \<and>
   1 \<in> detachedRecognitions (hangUp hostInCall) \<and>
   1 \<notin> set (runningRecognitions (hangUp hostInCall)) \<and>
   2 \<notin> fst ` set (timers (hangUp hostInCall)) \<and>
   hangUp (hangUp hostInCall) = hangUp hostInCall"
proof -
  note h = hangUp_resets_and_releases [of hostInCall]
  have a: "track_id ` set sampleStream \<subseteq> endedTracks (hangUp hostInCall)"
    using h hostInCall_facts(3) by blast
  have b: "1 \<in> detachedRecognitions (hangUp hostInCall) \<and>
           1 \<notin> set (runningRecognitions (hangUp hostInCall))"
    using h hostInCall_facts(4) by blast
  have c: "2 \<notin> fst ` set (timers (hangUp hostInCall))"
    using h hostInCall_facts(5) by blast
  have d: "hangUp (hangUp hostInCall) = hangUp hostInCall \<and> phase (hangUp hostInCall) = Idle"
    using h by blast
  have e: "length (closedConnections (hangUp hostInCall)) = 1"
    by (simp add: hangUp_def reset_keeps cleanupPeerConnection_def stopRecognition_def
        stopTracks_def Let_def hostInCall_facts)
       (simp add: hostInCall_def hostWithOffer_def initial_def sample_defs signaling_defs caption_defs)
  show ?thesis
    using a b c d e by (simp add: hostInCall_facts sampleStream_def)
qed

subsection \<open>The signaling codec\<close>

lemma dropWhile_until:
  "x \<notin> set xs \<Longrightarrow> dropWhile (\<lambda>c. c \<noteq> x) (xs @ x # ys) = x # ys"
  by (induction xs) auto

lemma dropWhile_set_subset: "set (dropWhile P xs) \<subseteq> set xs"
  by (induction xs) auto

lemma dropWhile_before:
  "\<not> P y \<Longrightarrow> dropWhile P (xs @ y # ys) = dropWhile P xs @ y # ys"
  by (induction xs) auto

lemma not_white_braces: "\<not> isWhiteSpace 123" "\<not> isWhiteSpace 125"
  by (simp_all add: isWhiteSpace_def)

lemma trim_surrounded:
  "trim (before @ (123 # body @ [125]) @ after) =
     dropWhile isWhiteSpace before @ (123 # body @ [125]) @
     rev (dropWhile isWhiteSpace (rev after))"
proof -
  have a: "dropWhile isWhiteSpace (before @ (123 # body @ [125]) @ after) =
           dropWhile isWhiteSpace before @ 123 # body @ [125] @ after"
    using dropWhile_before [of isWhiteSpace 123 before "body @ [125] @ after"]
    by (simp add: not_white_braces)
  have b: "rev (dropWhile isWhiteSpace before @ 123 # body @ [125] @ after) =
           rev after @ 125 # (rev body @ 123 # rev (dropWhile isWhiteSpace before))"
    by simp
  show ?thesis
    unfolding trim_def a b
    using dropWhile_before [of isWhiteSpace 125 "rev after"
        "rev body @ 123 # rev (dropWhile isWhiteSpace before)"]
    by (simp add: not_white_braces)
qed

lemma stripBOM_surrounded:
  "\<exists>pre. set pre \<subseteq> set before \<and>
     stripBOM (before @ (123 # body @ [125]) @ after) = pre @ (123 # body @ [125]) @ after"
proof (cases before)
  case Nil
  then show ?thesis by (simp add: stripBOM_def)
next
  case (Cons c cs)
  show ?thesis
  proof (cases "c = 65279")
    case True
    with Cons have "stripBOM (before @ (123 # body @ [125]) @ after) = cs @ (123 # body @ [125]) @ after"
      by (simp add: stripBOM_def)
    moreover have "set cs \<subseteq> set before" using Cons by auto
    ultimately show ?thesis by blast
  next
    case False
    with Cons have "stripBOM (before @ (123 # body @ [125]) @ after) = before @ (123 # body @ [125]) @ after"
      by (simp add: stripBOM_def)
    then show ?thesis by blast
  qed
qed

lemma matchBraces_surrounded:
  assumes "123 \<notin> set pre" "125 \<notin> set post"
  shows "matchBraces (pre @ (123 # body @ [125]) @ post) = Some (123 # body @ [125])"
proof -
  have a: "dropWhile (\<lambda>c. c \<noteq> 123) (pre @ (123 # body @ [125]) @ post) = 123 # body @ [125] @ post"
    using dropWhile_until [OF assms(1), of "body @ [125] @ post"] by simp
  have "125 \<notin> set (rev post)" using assms(2) by simp
  then have b: "dropWhile (\<lambda>c. c \<noteq> 125) (rev post @ 125 # rev body) = 125 # rev body"
    using dropWhile_until [of 125 "rev post" "rev body"] by simp
  show ?thesis
    unfolding matchBraces_def a by (simp add: b split: list.split)
qed

lemma cleanPayload_surrounded:
  assumes "123 \<notin> set before" "125 \<notin> set after"
  shows "cleanPayload (before @ (123 # body @ [125]) @ after) = 123 # body @ [125]"
proof -
  let ?obj = "123 # body @ [125]"
  let ?b = "dropWhile isWhiteSpace before"
  let ?a = "rev (dropWhile isWhiteSpace (rev after))"
  obtain pre where pre: "set pre \<subseteq> set ?b"
    "stripBOM (?b @ ?obj @ ?a) = pre @ ?obj @ ?a"
    using stripBOM_surrounded [of ?b body ?a] by blast
  have "set ?b \<subseteq> set before" by (rule dropWhile_set_subset)
  with pre(1) assms(1) have p: "123 \<notin> set pre" by blast
  have "set (dropWhile isWhiteSpace (rev after)) \<subseteq> set (rev after)" by (rule dropWhile_set_subset)
  with assms(2) have q: "125 \<notin> set ?a" by auto
  show ?thesis
    unfolding cleanPayload_def trim_surrounded pre(2)
    using matchBraces_surrounded [OF p q, of body] by (simp add: Let_def)
qed

lemma toDescription_toJson: "toDescription (descriptionToJson d) = Some d"
  by (cases "sd_type d") (simp_all add: toDescription_def descriptionToJson_def typeName_def typeOfName_def)

lemma matchBraces_no_open: "123 \<notin> set x \<Longrightarrow> matchBraces x = None"
  by (induction x) (auto simp add: matchBraces_def)

lemma cleanPayload_empty: "cleanPayload [] = []"
  by (simp add: cleanPayload_def trim_def stripBOM_def matchBraces_def)


lemma applyOffer_unparsed:
  assumes "parse (cleanPayload x) = None" "role s = Some Guest" "remoteDescription (connection s) = None"
  shows "fst (applyRemoteOfferAndCreateAnswer parse stringify x env s) = Failed InvalidOfferFormat"
    "phase (snd (applyRemoteOfferAndCreateAnswer parse stringify x env s)) = phase s"
  using assms
  by (simp_all add: applyRemoteOfferAndCreateAnswer_def ensure_busy failBusy_def phase_ensure
      parsePayload_def)

lemma applyAnswer_unparsed:
  assumes "parse (cleanPayload x) = None" "role s = Some Host" "remoteDescription (connection s) = None"
    "localDescription (connection s) \<noteq> None"
  shows "fst (applyRemoteAnswer parse x env s) = Failed InvalidAnswerFormat"
    "phase (snd (applyRemoteAnswer parse x env s)) = phase s"
  using assms
  by (auto simp add: applyRemoteAnswer_def ensure_busy failBusy_def phase_ensure parsePayload_def)

lemma applyOffer_no_description:
  assumes "parse (cleanPayload x) = Some v" "toDescription v = None" "role s = Some Guest"
    "remoteDescription (connection s) = None"
  shows "fst (applyRemoteOfferAndCreateAnswer parse stringify x env s) = Failed CodeLooksInvalid"
    "phase (snd (applyRemoteOfferAndCreateAnswer parse stringify x env s)) = phase s"
  using assms
  by (simp_all add: applyRemoteOfferAndCreateAnswer_def ensure_busy failBusy_def phase_ensure
      parsePayload_def)

lemma applyAnswer_no_description:
  assumes "parse (cleanPayload x) = Some v" "toDescription v = None" "role s = Some Host"
    "remoteDescription (connection s) = None" "localDescription (connection s) \<noteq> None"
    "signalingState (connection s) = HaveLocalOffer"
  shows "fst (applyRemoteAnswer parse x env s) = Failed ResponseLooksInvalid"
    "phase (snd (applyRemoteAnswer parse x env s)) = phase s"
  using assms
  by (auto simp add: applyRemoteAnswer_def ensure_busy failBusy_def phase_ensure parsePayload_def)

lemma decodePayload_fails:
  "decodePayload parse x = None \<longleftrightarrow>
     parse (cleanPayload x) = None \<or> (\<exists>v. parse (cleanPayload x) = Some v \<and> toDescription v = None)"
  by (cases "parse (cleanPayload x)") (simp_all add: decodePayload_def parsePayload_def)

lemma cleanPayload_blank:
  assumes "\<forall>c\<in>set x. isWhiteSpace c"
  shows "cleanPayload x = []"
proof -
  have d: "dropWhile isWhiteSpace x = []" using assms by (induction x) simp_all
  have "trim x = []" unfolding trim_def d by simp
  then show ?thesis by (simp add: cleanPayload_def stripBOM_def matchBraces_def)
qed

text \<open>
  Claim C3, as the hook has it.  \<^verbatim>\<open>JSON.stringify\<close> and \<^verbatim>\<open>JSON.parse\<close> are arguments, of which only
  this is assumed: parsing the text of the description gives the description back, and
  that text begins with an opening and ends with a closing brace.  Then decoding the
  encoded description gives the description, also when the encoded text is surrounded
  by white space, a byte-order mark and other text, as long as there is no opening brace
  before it and no closing brace after it: the clean-up keeps what lies between the
  first opening and the last closing brace, and drops a closing brace before and an
  opening brace after that span.  Decoding fails exactly when \<^verbatim>\<open>JSON.parse\<close> rejects the
  cleaned text or the parsed value is no session description; the two calls that decode
  then fail with their "invalid connection data format" message in the first case and
  with their "looks invalid" message in the second, and leave the phase as it is.  The
  cleaned text of a blank input, the empty one among them, is the empty text: decoding
  it fails if \<^verbatim>\<open>JSON.parse\<close> rejects the empty text.  A text without an opening brace is
  handed to \<^verbatim>\<open>JSON.parse\<close> trimmed and otherwise as it is.
\<close>

theorem decode_surrounded_payload:
  "(parse (stringify (descriptionToJson d)) = Some (descriptionToJson d) \<and>
    stringify (descriptionToJson d) = 123 # body @ [125] \<and>
    123 \<notin> set before \<and> 125 \<notin> set after \<longrightarrow>
      cleanPayload (before @ encodePayload stringify d @ after) = encodePayload stringify d \<and>
      decodePayload parse (before @ encodePayload stringify d @ after) = Some d \<and>
      decodePayload parse (encodePayload stringify d) = Some d) \<and>
   (decodePayload parse x = None \<longleftrightarrow>
      parse (cleanPayload x) = None \<or>
      (\<exists>v. parse (cleanPayload x) = Some v \<and> toDescription v = None)) \<and>
   (parse (cleanPayload x) = None \<longrightarrow>
      (role s = Some Guest \<and> remoteDescription (connection s) = None \<longrightarrow>
         fst (applyRemoteOfferAndCreateAnswer parse stringify x env s) = Failed InvalidOfferFormat \<and>
         phase (snd (applyRemoteOfferAndCreateAnswer parse stringify x env s)) = phase s) \<and>
      (role s = Some Host \<and> remoteDescription (connection s) = None \<and>
       localDescription (connection s) \<noteq> None \<longrightarrow>
         fst (applyRemoteAnswer parse x env s) = Failed InvalidAnswerFormat \<and>
         phase (snd (applyRemoteAnswer parse x env s)) = phase s)) \<and>
   (parse (cleanPayload x) = Some v \<and> toDescription v = None \<longrightarrow>
      (role s = Some Guest \<and> remoteDescription (connection s) = None \<longrightarrow>
         fst (applyRemoteOfferAndCreateAnswer parse stringify x env s) = Failed CodeLooksInvalid \<and>
         phase (snd (applyRemoteOfferAndCreateAnswer parse stringify x env s)) = phase s) \<and>
      (role s = Some Host \<and> remoteDescription (connection s) = None \<and>
       localDescription (connection s) \<noteq> None \<and>
       signalingState (connection s) = HaveLocalOffer \<longrightarrow>
         fst (applyRemoteAnswer parse x env s) = Failed ResponseLooksInvalid \<and>
         phase (snd (applyRemoteAnswer parse x env s)) = phase s)) \<and>
   ((\<forall>c\<in>set x. isWhiteSpace c) \<longrightarrow>
      cleanPayload x = [] \<and> (parse [] = None \<longrightarrow> decodePayload parse x = None)) \<and>
   (123 \<notin> set (stripBOM (trim x)) \<longrightarrow> cleanPayload x = stripBOM (trim x))"
proof (intro conjI impI)
  assume a: "parse (stringify (descriptionToJson d)) = Some (descriptionToJson d) \<and>
    stringify (descriptionToJson d) = 123 # body @ [125] \<and>
    123 \<notin> set before \<and> 125 \<notin> set after"
  then have e: "encodePayload stringify d = 123 # body @ [125]" by (simp add: encodePayload_def)
  have p: "parse (123 # body @ [125]) = Some (descriptionToJson d)" using a by metis
  have c: "cleanPayload (before @ (123 # body @ [125]) @ after) = 123 # body @ [125]"
    using a cleanPayload_surrounded by blast
  have c0: "cleanPayload ([] @ (123 # body @ [125]) @ []) = 123 # body @ [125]"
    by (rule cleanPayload_surrounded) simp_all
  show "cleanPayload (before @ encodePayload stringify d @ after) = encodePayload stringify d"
    using c by (simp add: e)
  show "decodePayload parse (before @ encodePayload stringify d @ after) = Some d"
    using c p by (simp add: e decodePayload_def parsePayload_def toDescription_toJson)
  show "decodePayload parse (encodePayload stringify d) = Some d"
    using c0 p by (simp add: e decodePayload_def parsePayload_def toDescription_toJson)
next
  show "decodePayload parse x = None \<longleftrightarrow>
      parse (cleanPayload x) = None \<or>
      (\<exists>v. parse (cleanPayload x) = Some v \<and> toDescription v = None)"
    by (rule decodePayload_fails)
next
  assume "parse (cleanPayload x) = None" "role s = Some Guest \<and> remoteDescription (connection s) = None"
  then show "fst (applyRemoteOfferAndCreateAnswer parse stringify x env s) = Failed InvalidOfferFormat"
    "phase (snd (applyRemoteOfferAndCreateAnswer parse stringify x env s)) = phase s"
    using applyOffer_unparsed by blast+
next
  assume "parse (cleanPayload x) = None" "role s = Some Host \<and> remoteDescription (connection s) = None \<and>
       localDescription (connection s) \<noteq> None"
  then show "fst (applyRemoteAnswer parse x env s) = Failed InvalidAnswerFormat"
    "phase (snd (applyRemoteAnswer parse x env s)) = phase s"
    using applyAnswer_unparsed by blast+
next
  assume "parse (cleanPayload x) = Some v \<and> toDescription v = None"
    "role s = Some Guest \<and> remoteDescription (connection s) = None"
  then show "fst (applyRemoteOfferAndCreateAnswer parse stringify x env s) = Failed CodeLooksInvalid"
    "phase (snd (applyRemoteOfferAndCreateAnswer parse stringify x env s)) = phase s"
    using applyOffer_no_description by blast+
next
  assume "parse (cleanPayload x) = Some v \<and> toDescription v = None"
    "role s = Some Host \<and> remoteDescription (connection s) = None \<and>
       localDescription (connection s) \<noteq> None \<and>
       signalingState (connection s) = HaveLocalOffer"
  then show "fst (applyRemoteAnswer parse x env s) = Failed ResponseLooksInvalid"
    "phase (snd (applyRemoteAnswer parse x env s)) = phase s"
    using applyAnswer_no_description by blast+
next
  assume b: "\<forall>c\<in>set x. isWhiteSpace c"
  then show "cleanPayload x = []" by (rule cleanPayload_blank)
  assume "parse [] = None"
  then show "decodePayload parse x = None"
    using cleanPayload_blank [OF b] by (simp add: decodePayload_def parsePayload_def)
next
  assume "123 \<notin> set (stripBOM (trim x))"
  then show "cleanPayload x = stripBOM (trim x)"
    by (simp add: cleanPayload_def Let_def matchBraces_no_open)
qed

text \<open>
  Claim C3, as the specification states it, fails in two places.  The encoded sample
  offer followed by \<^verbatim>\<open> :-}\<close> is one balanced object with surrounding text, and its first
  balanced structure is the encoded offer, which decodes; the clean-up of the hook keeps
  the whole text, up to the last closing brace, and decoding fails.  The encoded sample
  offer between a closing brace and an opening brace is not balanced; the clean-up
  drops the two braces, and decoding succeeds.
\<close>

theorem cleanPayload_not_first_balanced:
  "specFirstBalanced offerWithSmiley = Some (sampleStringify (descriptionToJson sampleOffer)) \<and>
   cleanPayload offerWithSmiley = offerWithSmiley \<and>
   offerWithSmiley \<noteq> sampleStringify (descriptionToJson sampleOffer) \<and>
   decodePayload sampleParse (sampleStringify (descriptionToJson sampleOffer)) = Some sampleOffer \<and>
   decodePayload sampleParse offerWithSmiley = None \<and>
   \<not> specBalanced strayBraces \<and>
   cleanPayload strayBraces = sampleStringify (descriptionToJson sampleOffer) \<and>
   decodePayload sampleParse strayBraces = Some sampleOffer"
  by (simp add: offerWithSmiley_def strayBraces_def specBalanced_def decodePayload_def sample_defs
      signaling_defs)

lemma payload_samples:
  "sampleParse (sampleStringify (descriptionToJson sampleOffer)) = Some (descriptionToJson sampleOffer)"
  "sampleStringify (descriptionToJson sampleOffer) =
     123 # butlast (tl (sampleStringify (descriptionToJson sampleOffer))) @ [125]"
  "123 \<notin> set (js ''  '' @ [65279] @ js ''code: }'')"
  "125 \<notin> set (js '' { (end)  '')"
  "sampleParse (cleanPayload unclosedOffer) = None"
  "sampleParse [] = None"
  "role guestReady = Some Guest" "remoteDescription (connection guestReady) = None"
  "phase guestReady = WaitingOffer"
  "123 \<notin> set (stripBOM (trim (js '' offer '')))"
  "sampleParse (cleanPayload samplePingText) = Some samplePing" "toDescription samplePing = None"
  "\<forall>c\<in>set (js ''   ''). isWhiteSpace c"
  by (simp_all add: unclosedOffer_def guestReady_def initial_def connection_def sample_defs signaling_defs)

theorem decode_surrounded_payload_witness:
  "sampleParse (sampleStringify (descriptionToJson sampleOffer)) = Some (descriptionToJson sampleOffer) \<and>
   123 \<notin> set (js ''  '' @ [65279] @ js ''code: }'') \<and> 125 \<notin> set (js '' { (end)  '') \<and>
   decodePayload sampleParse
     ((js ''  '' @ [65279] @ js ''code: }'') @ encodePayload sampleStringify sampleOffer @ js '' { (end)  '')
     = Some sampleOffer \<and>
   decodePayload sampleParse (encodePayload sampleStringify sampleOffer) = Some sampleOffer \<and>
   sampleParse (cleanPayload unclosedOffer) = None \<and> decodePayload sampleParse unclosedOffer = None \<and>
   role guestReady = Some Guest \<and> remoteDescription (connection guestReady) = None \<and>
   fst (applyRemoteOfferAndCreateAnswer sampleParse sampleStringify unclosedOffer
          (sampleNegotiation sampleAnswer) guestReady) = Failed InvalidOfferFormat \<and>
   role hostWithOffer = Some Host \<and> remoteDescription (connection hostWithOffer) = None \<and>
   localDescription (connection hostWithOffer) \<noteq> None \<and>
   signalingState (connection hostWithOffer) = HaveLocalOffer \<and>
   fst (applyRemoteAnswer sampleParse unclosedOffer (sampleNegotiation sampleAnswer) hostWithOffer)
     = Failed InvalidAnswerFormat \<and>
   sampleParse (cleanPayload samplePingText) = Some samplePing \<and> toDescription samplePing = None \<and>
   decodePayload sampleParse samplePingText = None \<and>
   fst (applyRemoteOfferAndCreateAnswer sampleParse sampleStringify samplePingText
          (sampleNegotiation sampleAnswer) guestReady) = Failed CodeLooksInvalid \<and>
   fst (applyRemoteAnswer sampleParse samplePingText (sampleNegotiation sampleAnswer) hostWithOffer)
     = Failed ResponseLooksInvalid \<and>
   isWhiteSpace 32 \<and> js ''   '' = [32, 32, 32] \<and> sampleParse [] = None \<and>
   cleanPayload (js ''   '') = [] \<and> decodePayload sampleParse (js ''   '') = None \<and>
   123 \<notin> set (stripBOM (trim (js '' offer ''))) \<and>
   cleanPayload (js '' offer '') = stripBOM (trim (js '' offer ''))"
proof -
  have a: "decodePayload sampleParse
     ((js ''  '' @ [65279] @ js ''code: }'') @ encodePayload sampleStringify sampleOffer @ js '' { (end)  '')
     = Some sampleOffer \<and>
     decodePayload sampleParse (encodePayload sampleStringify sampleOffer) = Some sampleOffer"
    using decode_surrounded_payload [where parse = sampleParse and stringify = sampleStringify
        and d = sampleOffer
        and body = "butlast (tl (sampleStringify (descriptionToJson sampleOffer)))"
        and before = "js ''  '' @ [65279] @ js ''code: }''" and after = "js '' { (end)  ''"]
      payload_samples(1,2,3,4)
    by blast
  have b: "decodePayload sampleParse unclosedOffer = None \<and>
     fst (applyRemoteOfferAndCreateAnswer sampleParse sampleStringify unclosedOffer
          (sampleNegotiation sampleAnswer) guestReady) = Failed InvalidOfferFormat"
    using decode_surrounded_payload [where parse = sampleParse and x = unclosedOffer
        and s = guestReady and stringify = sampleStringify and env = "sampleNegotiation sampleAnswer"]
      payload_samples(5,7,8)
    by blast
  have c: "fst (applyRemoteAnswer sampleParse unclosedOffer (sampleNegotiation sampleAnswer)
       hostWithOffer) = Failed InvalidAnswerFormat"
    using decode_surrounded_payload [where parse = sampleParse and x = unclosedOffer
        and s = hostWithOffer and env = "sampleNegotiation sampleAnswer"]
      payload_samples(5) hostWithOffer_facts(1) hostWithOffer_connection
    by blast
  have d: "decodePayload sampleParse samplePingText = None \<and>
     fst (applyRemoteOfferAndCreateAnswer sampleParse sampleStringify samplePingText
          (sampleNegotiation sampleAnswer) guestReady) = Failed CodeLooksInvalid"
    using decode_surrounded_payload [where parse = sampleParse and x = samplePingText
        and v = samplePing and s = guestReady and stringify = sampleStringify
        and env = "sampleNegotiation sampleAnswer"]
      payload_samples(7,8,11,12)
    by blast
  have e: "fst (applyRemoteAnswer sampleParse samplePingText (sampleNegotiation sampleAnswer)
       hostWithOffer) = Failed ResponseLooksInvalid"
    using decode_surrounded_payload [where parse = sampleParse and x = samplePingText
        and v = samplePing and s = hostWithOffer and env = "sampleNegotiation sampleAnswer"]
      payload_samples(11,12) hostWithOffer_facts(1) hostWithOffer_connection
    by blast
  have f: "cleanPayload (js ''   '') = [] \<and> decodePayload sampleParse (js ''   '') = None"
    using decode_surrounded_payload [where parse = sampleParse and x = "js ''   ''"]
      payload_samples(6,13)
    by blast
  have g: "cleanPayload (js '' offer '') = stripBOM (trim (js '' offer ''))"
    using decode_surrounded_payload [where x = "js '' offer ''"] payload_samples(10) by blast
  have w: "isWhiteSpace 32" "js ''   '' = [32, 32, 32]" by (simp_all add: isWhiteSpace_def)
  show ?thesis
    using a b c d e f g w payload_samples(1,3,4,5,6,7,8,10,11,12) hostWithOffer_facts(1)
      hostWithOffer_connection
    by blast
qed

subsection \<open>Receiving captions\<close>

text \<open>
  Claim C5.  A message whose body \<^verbatim>\<open>JSON.parse\<close> rejects, or whose parsed value has no
  \<^verbatim>\<open>kind\<close> equal to \<^verbatim>\<open>"caption"\<close> (\<^verbatim>\<open>null\<close> included, on which reading \<^verbatim>\<open>kind\<close> throws), leaves
  the whole state of the hook as it is, the remote caption in particular, and the
  handler returns normally.
\<close>

theorem onmessage_discards:
  "(parse dat = None \<longrightarrow>
      onmessage parse lang dat s = s \<and>
      dispatch parse stringify (MessageEvent lang dat) s = (Done, s)) \<and>
   (parse dat = Some v \<and> property v (js ''kind'') \<noteq> Some (JStr (js ''caption'')) \<longrightarrow>
      onmessage parse lang dat s = s \<and>
      dispatch parse stringify (MessageEvent lang dat) s = (Done, s))"
  by (cases v) (simp_all add: onmessage_def dispatch_def)

lemma message_samples:
  "sampleParse (js ''not json'') = None"
  "sampleParse samplePingText = Some samplePing"
  "property samplePing (js ''kind'') \<noteq> Some (JStr (js ''caption''))"
  "sampleParse (js ''null'') = Some JNull"
  "property JNull (js ''kind'') \<noteq> Some (JStr (js ''caption''))"
  by (simp_all add: sample_defs property_def descriptionToJson_def typeName_def)

lemma hostInCall_caption: "remoteCaption hostInCall = Some (JStr (js ''hola''))"
  by (simp add: hostInCall_def hostWithOffer_def initial_def sample_defs signaling_defs caption_defs)

theorem onmessage_discards_witness:
  "sampleParse (js ''not json'') = None \<and>
   onmessage sampleParse (js ''fr'') (js ''not json'') hostInCall = hostInCall \<and>
   sampleParse samplePingText = Some samplePing \<and>
   property samplePing (js ''kind'') \<noteq> Some (JStr (js ''caption'')) \<and>
   onmessage sampleParse (js ''fr'') samplePingText hostInCall = hostInCall \<and>
   sampleParse (js ''null'') = Some JNull \<and>
   onmessage sampleParse (js ''fr'') (js ''null'') hostInCall = hostInCall \<and>
   remoteCaption (onmessage sampleParse (js ''fr'') samplePingText hostInCall)
     = Some (JStr (js ''hola''))"
proof -
  have a: "onmessage sampleParse (js ''fr'') (js ''not json'') hostInCall = hostInCall"
    using onmessage_discards [where parse = sampleParse and dat = "js ''not json''"]
      message_samples(1) by blast
  have b: "onmessage sampleParse (js ''fr'') samplePingText hostInCall = hostInCall"
    using onmessage_discards [where parse = sampleParse and dat = samplePingText and v = samplePing]
      message_samples(2,3) by blast
  have c: "onmessage sampleParse (js ''fr'') (js ''null'') hostInCall = hostInCall"
    using onmessage_discards [where parse = sampleParse and dat = "js ''null''" and v = JNull]
      message_samples(4,5) by blast
  have d: "remoteCaption (onmessage sampleParse (js ''fr'') samplePingText hostInCall)
     = Some (JStr (js ''hola''))"
    using b hostInCall_caption by metis
  show ?thesis using a b c d message_samples(1,2,3,4) by blast
qed

subsection \<open>Translation responses\<close>

text \<open>
  Claim C6, as the hook has it.  A translation request carries no sequence number.
  When two requests are in flight, each response replaces the displayed translation
  with its own result when it comes back: what is displayed is the result of the
  response that came back last, in either order.
\<close>

theorem translation_last_response_wins:
  "map_of (inflight s) r1 = Some t1 \<and> map_of (inflight s) r2 = Some t2 \<and> r1 \<noteq> r2 \<longrightarrow>
     remoteCaptionTranslated (translationSettles r2 o2 s) = translateTextResult t2 o2 \<and>
     remoteCaptionTranslated (translationSettles r1 o1 (translationSettles r2 o2 s))
       = translateTextResult t1 o1 \<and>
     remoteCaptionTranslated (translationSettles r2 o2 (translationSettles r1 o1 s))
       = translateTextResult t2 o2"
proof (intro impI)
  assume a: "map_of (inflight s) r1 = Some t1 \<and> map_of (inflight s) r2 = Some t2 \<and> r1 \<noteq> r2"
  have k: "map_of (filter (\<lambda>p. fst p \<noteq> r) xs) r' = map_of xs r'" if "r' \<noteq> r" for r r' and xs :: "(nat \<times> jsstring) list"
    using that by (induction xs) auto
  show "remoteCaptionTranslated (translationSettles r2 o2 s) = translateTextResult t2 o2 \<and>
     remoteCaptionTranslated (translationSettles r1 o1 (translationSettles r2 o2 s))
       = translateTextResult t1 o1 \<and>
     remoteCaptionTranslated (translationSettles r2 o2 (translationSettles r1 o1 s))
       = translateTextResult t2 o2"
    using a by (simp add: translationSettles_def k)
qed

lemma twoRequests_facts:
  "inflight twoRequests = [(1, js ''hola''), (2, js ''adios'')]"
  "remoteCaption twoRequests = Some (JStr (js ''adios''))"
  by (simp_all add: twoRequests_def hostInCall_def hostWithOffer_def initial_def sample_defs
      signaling_defs caption_defs translation_defs)

text \<open>
  Claim C6, as the specification states it, fails: with the request for \<^verbatim>\<open>hola\<close> issued
  before the request for \<^verbatim>\<open>adios\<close>, the response to the second comes back first and is
  displayed; then the response to the first comes back and replaces it, although the
  remote caption is \<^verbatim>\<open>adios\<close>.
\<close>

theorem stale_translation_overwrites:
  "inflight twoRequests = [(1, js ''hola''), (2, js ''adios'')] \<and>
   remoteCaption twoRequests = Some (JStr (js ''adios'')) \<and>
   remoteCaptionTranslated (translationSettles 2 (Translated (js ''au revoir'')) twoRequests)
     = js ''au revoir'' \<and>
   remoteCaptionTranslated
     (translationSettles 1 (Translated (js ''bonjour''))
        (translationSettles 2 (Translated (js ''au revoir'')) twoRequests)) = js ''bonjour''"
  by (simp add: twoRequests_facts translationSettles_def translateTextResult_def)

theorem translation_last_response_wins_witness:
  "map_of (inflight twoRequests) 1 = Some (js ''hola'') \<and>
   map_of (inflight twoRequests) 2 = Some (js ''adios'') \<and> (1::nat) \<noteq> 2 \<and>
   remoteCaptionTranslated
     (translationSettles 1 (Translated (js ''bonjour''))
        (translationSettles 2 (Translated (js ''au revoir'')) twoRequests))
     = translateTextResult (js ''hola'') (Translated (js ''bonjour'')) \<and>
   remoteCaptionTranslated
     (translationSettles 2 (Translated (js ''au revoir''))
        (translationSettles 1 (Translated (js ''bonjour'')) twoRequests))
     = translateTextResult (js ''adios'') (Translated (js ''au revoir''))"
proof -
  have m: "map_of (inflight twoRequests) 1 = Some (js ''hola'')"
    "map_of (inflight twoRequests) 2 = Some (js ''adios'')" "(1::nat) \<noteq> 2"
    by (simp_all add: twoRequests_facts)
  show ?thesis
    using translation_last_response_wins [of twoRequests 1 "js ''hola''" 2 "js ''adios''"
        "Translated (js ''au revoir'')" "Translated (js ''bonjour'')"] m
    by blast
qed

subsection \<open>Scheduling translations\<close>

lemma timers_translateRemoteCaption:
  "timers (translateRemoteCaption lang (Some (JStr t)) src s) =
     (if trim t = [] \<or> lang = js ''en'' then timers s
      else rescheduled (TranslateCaption t src lang) s)"
  by (auto simp add: translateRemoteCaption_def rescheduled_def setTimeout_def clearTimeout_def
      Let_def split: option.split intro: filter_cong)

lemma timers_onmessage:
  assumes "parse dat = Some v" "property v (js ''kind'') = Some (JStr (js ''caption''))"
    "property v (js ''text'') = Some (JStr t)"
  shows "timers (onmessage parse lang dat s) =
     (if lang \<noteq> [] \<and> lang \<noteq> js ''en'' \<and> trim t \<noteq> []
      then rescheduled (TranslateCaption t (property v (js ''language'')) lang) s
      else timers s)"
proof (cases v)
  case (JObj props)
  have r: "rescheduled a (s\<lparr>remoteCaption := x, remoteCaptionLanguageRef := y\<rparr>) = rescheduled a s"
    for a x y by (simp add: rescheduled_def)
  show ?thesis
    using assms JObj
    by (simp add: onmessage_def Let_def timers_translateRemoteCaption r)
qed (use assms in \<open>simp_all add: property_def\<close>)

lemma timers_translationEffect:
  assumes "remoteCaption s = Some (JStr t)"
  shows "timers (translationEffect s) =
     (if translationLanguage s \<noteq> [] \<and> translationLanguage s \<noteq> js ''en'' \<and> trim t \<noteq> []
      then rescheduled (TranslateCaption t (remoteCaptionLanguageRef s) (translationLanguage s)) s
      else timers s)"
  using assms
  by (auto simp add: translationEffect_def truthy_def timers_translateRemoteCaption trim_def)

lemma rescheduled_cancels:
  "translationTimeoutRef s = Some pending \<Longrightarrow> pending \<noteq> nextTimer s \<Longrightarrow>
     pending \<notin> fst ` set (rescheduled a s)"
  by (auto simp add: rescheduled_def)

lemma translateText_strings:
  "translateText t (Some (JStr src)) tgt =
     (if src = tgt \<or> trim t = [] \<or> baseLanguage src = baseLanguage tgt \<or> \<not> isWellFormed t
      then Returns t
      else Fetches (baseLanguage src) (baseLanguage tgt))"
  by (simp add: translateText_def)

lemma inflight_translateNow:
  "inflight (translateNow t src lang s) =
     (case translateText t src lang of
        Fetches source target \<Rightarrow> inflight s @ [(nextRequest s, t)]
      | _ \<Rightarrow> inflight s)"
  by (simp add: translateNow_def Let_def split: translate_step.split)

lemma onmessage_caption:
  assumes "parse dat = Some v" "property v (js ''kind'') = Some (JStr (js ''caption''))"
    "property v (js ''text'') = Some (JStr t)"
  shows "remoteCaption (onmessage parse lang dat s) = Some (JStr t)"
    "remoteCaptionLanguageRef (onmessage parse lang dat s) = property v (js ''language'')"
    "translationLanguage (onmessage parse lang dat s) = translationLanguage s"
    "nextTimer (onmessage parse lang dat s) =
       (if lang \<noteq> [] \<and> lang \<noteq> js ''en'' \<and> trim t \<noteq> [] then Suc (nextTimer s) else nextTimer s)"
proof -
  obtain props where v: "v = JObj props"
    using assms(2) by (cases v) (simp_all add: property_def)
  show "remoteCaption (onmessage parse lang dat s) = Some (JStr t)"
    "remoteCaptionLanguageRef (onmessage parse lang dat s) = property v (js ''language'')"
    "translationLanguage (onmessage parse lang dat s) = translationLanguage s"
    "nextTimer (onmessage parse lang dat s) =
       (if lang \<noteq> [] \<and> lang \<noteq> js ''en'' \<and> trim t \<noteq> [] then Suc (nextTimer s) else nextTimer s)"
    using assms unfolding v
    by (simp_all add: onmessage_def Let_def translateRemoteCaption_def setTimeout_def
        clearTimeout_def split: option.split)
qed

lemma nextTimer_translationEffect:
  assumes "remoteCaption s = Some (JStr t)"
  shows "nextTimer (translationEffect s) =
     (if translationLanguage s \<noteq> [] \<and> translationLanguage s \<noteq> js ''en'' \<and> trim t \<noteq> []
      then Suc (nextTimer s) else nextTimer s)"
  using assms
  by (auto simp add: translationEffect_def truthy_def translateRemoteCaption_def setTimeout_def
      clearTimeout_def trim_def split: option.split)

lemma sameValue_string: "sameValue x (Some (JStr t)) \<longleftrightarrow> x = Some (JStr t)"
  by (cases "(x, Some (JStr t))" rule: sameValue.cases) simp_all

lemma receiveMessage_caption:
  assumes "parse dat = Some v" "property v (js ''kind'') = Some (JStr (js ''caption''))"
    "property v (js ''text'') = Some (JStr t)"
  shows "receiveMessage parse lang dat s =
           (if remoteCaption s = Some (JStr t) then onmessage parse lang dat s
            else translationEffect (onmessage parse lang dat s))"
    "timers (receiveMessage parse lang dat s) =
           (if remoteCaption s \<noteq> Some (JStr t) \<and> translationLanguage s \<noteq> [] \<and>
               translationLanguage s \<noteq> js ''en'' \<and> trim t \<noteq> []
            then rescheduled (TranslateCaption t (property v (js ''language'')) (translationLanguage s))
                   (onmessage parse lang dat s)
            else timers (onmessage parse lang dat s))"
    "nextTimer (receiveMessage parse lang dat s) \<noteq> nextTimer s \<longleftrightarrow>
       trim t \<noteq> [] \<and>
       (lang \<noteq> [] \<and> lang \<noteq> js ''en'' \<or>
        remoteCaption s \<noteq> Some (JStr t) \<and> translationLanguage s \<noteq> [] \<and>
        translationLanguage s \<noteq> js ''en'')"
proof -
  note m = onmessage_caption [of parse dat v t lang s, OF assms]
  show r: "receiveMessage parse lang dat s =
           (if remoteCaption s = Some (JStr t) then onmessage parse lang dat s
            else translationEffect (onmessage parse lang dat s))"
    by (simp add: receiveMessage_def Let_def m(1) sameValue_string)
  show "timers (receiveMessage parse lang dat s) =
           (if remoteCaption s \<noteq> Some (JStr t) \<and> translationLanguage s \<noteq> [] \<and>
               translationLanguage s \<noteq> js ''en'' \<and> trim t \<noteq> []
            then rescheduled (TranslateCaption t (property v (js ''language'')) (translationLanguage s))
                   (onmessage parse lang dat s)
            else timers (onmessage parse lang dat s))"
    unfolding r using timers_translationEffect [OF m(1)] by (simp add: m(2,3))
  show "nextTimer (receiveMessage parse lang dat s) \<noteq> nextTimer s \<longleftrightarrow>
       trim t \<noteq> [] \<and>
       (lang \<noteq> [] \<and> lang \<noteq> js ''en'' \<or>
        remoteCaption s \<noteq> Some (JStr t) \<and> translationLanguage s \<noteq> [] \<and>
        translationLanguage s \<noteq> js ''en'')"
    unfolding r using nextTimer_translationEffect [OF m(1)] by (auto simp add: m(3,4))
qed

text \<open>
  Claim C7, as the hook has it.  The receipt of a caption message whose text is a string
  is the handler of the channel followed, if the text is not the remote caption
  displayed so far, by the effect on the remote caption.  The handler sets the 300 ms
  timer of one translation request, in place of the timer of the request before it if
  that is still pending, exactly when the translation language that its closure holds
  is not empty and not \<^verbatim>\<open>en\<close> and the text is not blank; the effect does the same with the
  current translation language.  So a timer is set on receipt (the number of the next
  timer changes) exactly when the text is not blank and the one or the other language is
  neither empty nor \<^verbatim>\<open>en\<close>; the source language of the message plays no part.  When the
  timer fires, \<^verbatim>\<open>translateText\<close> sends a request only if the text is not blank, the two
  language tags and their base codes differ and the text is well formed; otherwise it
  returns the text and nothing is sent.
\<close>

theorem caption_translation_scheduling:
  "(parse dat = Some v \<and> property v (js ''kind'') = Some (JStr (js ''caption'')) \<and>
    property v (js ''text'') = Some (JStr t) \<longrightarrow>
      receiveMessage parse lang dat s =
        (if remoteCaption s = Some (JStr t) then onmessage parse lang dat s
         else translationEffect (onmessage parse lang dat s)) \<and>
      (nextTimer (receiveMessage parse lang dat s) \<noteq> nextTimer s \<longleftrightarrow>
         trim t \<noteq> [] \<and>
         (lang \<noteq> [] \<and> lang \<noteq> js ''en'' \<or>
          remoteCaption s \<noteq> Some (JStr t) \<and> translationLanguage s \<noteq> [] \<and>
          translationLanguage s \<noteq> js ''en'')) \<and>
      timers (onmessage parse lang dat s) =
        (if lang \<noteq> [] \<and> lang \<noteq> js ''en'' \<and> trim t \<noteq> []
         then rescheduled (TranslateCaption t (property v (js ''language'')) lang) s
         else timers s) \<and>
      timers (receiveMessage parse lang dat s) =
        (if remoteCaption s \<noteq> Some (JStr t) \<and> translationLanguage s \<noteq> [] \<and>
            translationLanguage s \<noteq> js ''en'' \<and> trim t \<noteq> []
         then rescheduled (TranslateCaption t (property v (js ''language'')) (translationLanguage s))
                (onmessage parse lang dat s)
         else timers (onmessage parse lang dat s))) \<and>
   (remoteCaption s = Some (JStr t) \<longrightarrow>
      timers (translationEffect s) =
        (if translationLanguage s \<noteq> [] \<and> translationLanguage s \<noteq> js ''en'' \<and> trim t \<noteq> []
         then rescheduled (TranslateCaption t (remoteCaptionLanguageRef s) (translationLanguage s)) s
         else timers s)) \<and>
   (translationTimeoutRef s = Some pending \<and> pending \<noteq> nextTimer s \<longrightarrow>
      pending \<notin> fst ` set (rescheduled a s)) \<and>
   translateText t (Some (JStr src)) tgt =
     (if src = tgt \<or> trim t = [] \<or> baseLanguage src = baseLanguage tgt \<or> \<not> isWellFormed t
      then Returns t
      else Fetches (baseLanguage src) (baseLanguage tgt)) \<and>
   inflight (translateNow t sourceLanguage tgt s) =
     (case translateText t sourceLanguage tgt of
        Fetches source target \<Rightarrow> inflight s @ [(nextRequest s, t)]
      | _ \<Rightarrow> inflight s)"
  using timers_onmessage [of parse dat v t lang s] receiveMessage_caption [of parse dat v t lang s]
    timers_translationEffect [of s t]
    rescheduled_cancels [of s pending a] translateText_strings [of t src tgt]
    inflight_translateNow [of t sourceLanguage tgt s]
  by blast

lemma hostConnected_facts:
  "translationLanguage hostConnected = js ''en''" "timers hostConnected = []"
  "inflight hostConnected = []" "translationTimeoutRef hostConnected = None"
  "nextTimer hostConnected = 2" "phase hostConnected = Connected"
  "remoteCaption hostConnected = Some (JStr [])"
  by (simp_all add: hostWithOffer_def initial_def sample_defs signaling_defs caption_defs)

text \<open>
  Claim C7, as the specification states it, fails: with the translation language \<^verbatim>\<open>en\<close>, a
  caption in \<^verbatim>\<open>es-ES\<close> arrives; the target language differs from the source language, and
  neither the handler nor the effect schedules a translation.
\<close>

theorem caption_in_other_language_not_translated:
  "translationLanguage hostConnected = js ''en'' \<and>
   sampleParse sampleCaptionText = Some sampleCaption \<and>
   property sampleCaption (js ''language'') = Some (JStr (js ''es-ES'')) \<and>
   js ''es-ES'' \<noteq> js ''en'' \<and> baseLanguage (js ''es-ES'') \<noteq> baseLanguage (js ''en'') \<and>
   remoteCaption (receiveMessage sampleParse (js ''en'') sampleCaptionText hostConnected)
     = Some (JStr (js ''hola'')) \<and>
   timers (onmessage sampleParse (js ''en'') sampleCaptionText hostConnected) = [] \<and>
   timers (translationEffect (onmessage sampleParse (js ''en'') sampleCaptionText hostConnected)) = [] \<and>
   timers (receiveMessage sampleParse (js ''en'') sampleCaptionText hostConnected) = [] \<and>
   nextTimer (receiveMessage sampleParse (js ''en'') sampleCaptionText hostConnected)
     = nextTimer hostConnected \<and>
   inflight (receiveMessage sampleParse (js ''en'') sampleCaptionText hostConnected) = []"
  by (simp add: receiveMessage_def hostWithOffer_def initial_def sample_defs signaling_defs
      caption_defs translation_defs)

lemma caption_samples:
  "sampleParse sampleCaptionText = Some sampleCaption"
  "property sampleCaption (js ''kind'') = Some (JStr (js ''caption''))"
  "property sampleCaption (js ''text'') = Some (JStr (js ''hola''))"
  "property sampleCaption (js ''language'') = Some (JStr (js ''es-ES''))"
  "trim (js ''hola'') = js ''hola''"
  "rescheduled a hostConnected = [(2, a)]"
  "remoteCaption hostInCall = Some (JStr (js ''hola''))"
  "translationTimeoutRef hostInCall = Some 2" "nextTimer hostInCall = 3"
  "translationLanguage hostInCall = js ''fr''"
  "remoteCaptionLanguageRef hostInCall = Some (JStr (js ''es-ES''))"
  "rescheduled a hostInCall = [(3, a)]"
  "baseLanguage (js ''es-ES'') = js ''es''" "baseLanguage (js ''fr-FR'') = js ''fr''"
  "baseLanguage (js ''fr'') = js ''fr''"
  "timers hostInCall = [(2, TranslateCaption (js ''hola'') (Some (JStr (js ''es-ES''))) (js ''fr''))]"
  by (simp_all add: hostInCall_def hostWithOffer_def initial_def sample_defs signaling_defs
      caption_defs translation_defs rescheduled_def)

lemma caption_samples2:
  "sampleParse sampleCaptionText2 = Some sampleCaption2"
  "property sampleCaption2 (js ''kind'') = Some (JStr (js ''caption''))"
  "property sampleCaption2 (js ''text'') = Some (JStr (js ''adios''))"
  "property sampleCaption2 (js ''language'') = Some (JStr (js ''es-ES''))"
  "trim (js ''adios'') = js ''adios''"
  "lang = js ''en'' \<Longrightarrow>
     rescheduled a (onmessage sampleParse lang sampleCaptionText2 hostInCall) = [(3, a)]"
  "\<not> isWellFormed halfPair" "trim halfPair \<noteq> []"
  by (simp_all add: hostInCall_def hostWithOffer_def initial_def sample_defs signaling_defs
      caption_defs translation_defs rescheduled_def halfPair_def)

theorem caption_translation_scheduling_witness:
  "sampleParse sampleCaptionText = Some sampleCaption \<and>
   property sampleCaption (js ''kind'') = Some (JStr (js ''caption'')) \<and>
   property sampleCaption (js ''text'') = Some (JStr (js ''hola'')) \<and>
   translationLanguage hostConnected = js ''en'' \<and>
   timers (receiveMessage sampleParse (js ''fr'') sampleCaptionText hostConnected)
     = [(2, TranslateCaption (js ''hola'') (Some (JStr (js ''es-ES''))) (js ''fr''))] \<and>
   nextTimer (receiveMessage sampleParse (js ''fr'') sampleCaptionText hostConnected)
     \<noteq> nextTimer hostConnected \<and>
   timers (receiveMessage sampleParse (js ''en'') sampleCaptionText hostConnected) = [] \<and>
   nextTimer (receiveMessage sampleParse (js ''en'') sampleCaptionText hostConnected)
     = nextTimer hostConnected \<and>
   translationLanguage hostInCall = js ''fr'' \<and> remoteCaption hostInCall = Some (JStr (js ''hola'')) \<and>
   sampleParse sampleCaptionText2 = Some sampleCaption2 \<and>
   property sampleCaption2 (js ''text'') = Some (JStr (js ''adios'')) \<and>
   timers (receiveMessage sampleParse (js ''en'') sampleCaptionText2 hostInCall)
     = [(3, TranslateCaption (js ''adios'') (Some (JStr (js ''es-ES''))) (js ''fr''))] \<and>
   nextTimer (receiveMessage sampleParse (js ''en'') sampleCaptionText2 hostInCall)
     \<noteq> nextTimer hostInCall \<and>
   timers (receiveMessage sampleParse (js ''en'') sampleCaptionText hostInCall) = timers hostInCall \<and>
   nextTimer (receiveMessage sampleParse (js ''en'') sampleCaptionText hostInCall)
     = nextTimer hostInCall \<and>
   timers (translationEffect hostInCall)
     = [(3, TranslateCaption (js ''hola'') (Some (JStr (js ''es-ES''))) (js ''fr''))] \<and>
   translationTimeoutRef hostInCall = Some 2 \<and> 2 \<noteq> nextTimer hostInCall \<and>
   2 \<notin> fst ` set (rescheduled (TranslateCaption (js ''hola'') (Some (JStr (js ''es-ES''))) (js ''fr''))
                      hostInCall) \<and>
   translateText (js ''hola'') (Some (JStr (js ''es-ES''))) (js ''fr'') = Fetches (js ''es'') (js ''fr'') \<and>
   translateText (js ''hola'') (Some (JStr (js ''fr-FR''))) (js ''fr'') = Returns (js ''hola'') \<and>
   \<not> isWellFormed halfPair \<and>
   translateText halfPair (Some (JStr (js ''es-ES''))) (js ''fr'') = Returns halfPair"
proof -
  note t1 = caption_translation_scheduling [THEN conjunct1, rule_format]
  note t2 = caption_translation_scheduling [THEN conjunct2, THEN conjunct1]
  note t3 = caption_translation_scheduling [THEN conjunct2, THEN conjunct2, THEN conjunct1]
  note t4 = caption_translation_scheduling [THEN conjunct2, THEN conjunct2, THEN conjunct2,
      THEN conjunct1]
  have h: "sampleParse sampleCaptionText = Some sampleCaption \<and>
    property sampleCaption (js ''kind'') = Some (JStr (js ''caption'')) \<and>
    property sampleCaption (js ''text'') = Some (JStr (js ''hola''))"
    using caption_samples(1,2,3) by blast
  have h2: "sampleParse sampleCaptionText2 = Some sampleCaption2 \<and>
    property sampleCaption2 (js ''kind'') = Some (JStr (js ''caption'')) \<and>
    property sampleCaption2 (js ''text'') = Some (JStr (js ''adios''))"
    using caption_samples2(1,2,3) by blast
  note c = t1 [of sampleParse sampleCaptionText sampleCaption "js ''hola''" _ hostConnected, OF h,
      THEN conjunct2]
  note c' = t1 [of sampleParse sampleCaptionText sampleCaption "js ''hola''" _ hostInCall, OF h,
      THEN conjunct2]
  note c2 = t1 [of sampleParse sampleCaptionText2 sampleCaption2 "js ''adios''" _ hostInCall, OF h2,
      THEN conjunct2]
  have a1: "timers (receiveMessage sampleParse (js ''fr'') sampleCaptionText hostConnected)
     = [(2, TranslateCaption (js ''hola'') (Some (JStr (js ''es-ES''))) (js ''fr''))]"
    "nextTimer (receiveMessage sampleParse (js ''fr'') sampleCaptionText hostConnected)
     \<noteq> nextTimer hostConnected"
    using c [of "js ''fr''"]
    by (simp_all add: caption_samples hostConnected_facts trim_def isWhiteSpace_def property_def
        sampleCaption_def)
  have a2: "timers (receiveMessage sampleParse (js ''en'') sampleCaptionText hostConnected) = []"
    "nextTimer (receiveMessage sampleParse (js ''en'') sampleCaptionText hostConnected)
     = nextTimer hostConnected"
    using c [of "js ''en''"]
    by (simp_all add: caption_samples hostConnected_facts trim_def isWhiteSpace_def property_def
        sampleCaption_def)
  have a3: "timers (receiveMessage sampleParse (js ''en'') sampleCaptionText2 hostInCall)
     = [(3, TranslateCaption (js ''adios'') (Some (JStr (js ''es-ES''))) (js ''fr''))]"
    "nextTimer (receiveMessage sampleParse (js ''en'') sampleCaptionText2 hostInCall)
     \<noteq> nextTimer hostInCall"
    using c2 [of "js ''en''"]
    by (simp_all add: caption_samples caption_samples2 trim_def isWhiteSpace_def property_def
        sampleCaption2_def)
  have a4: "timers (receiveMessage sampleParse (js ''en'') sampleCaptionText hostInCall) = timers hostInCall"
    "nextTimer (receiveMessage sampleParse (js ''en'') sampleCaptionText hostInCall)
     = nextTimer hostInCall"
    using c' [of "js ''en''"]
    by (simp_all add: caption_samples trim_def isWhiteSpace_def property_def sampleCaption_def)
  have "timers (translationEffect hostInCall) =
        (if translationLanguage hostInCall \<noteq> [] \<and> translationLanguage hostInCall \<noteq> js ''en'' \<and>
            trim (js ''hola'') \<noteq> []
         then rescheduled (TranslateCaption (js ''hola'') (remoteCaptionLanguageRef hostInCall)
                (translationLanguage hostInCall)) hostInCall
         else timers hostInCall)"
    using t2 [of hostInCall "js ''hola''"] caption_samples(7) by blast
  then have b: "timers (translationEffect hostInCall)
     = [(3, TranslateCaption (js ''hola'') (Some (JStr (js ''es-ES''))) (js ''fr''))]"
    by (simp add: caption_samples trim_def isWhiteSpace_def)
  have n: "2 \<noteq> nextTimer hostInCall" by (simp add: caption_samples)
  have d: "2 \<notin> fst ` set (rescheduled (TranslateCaption (js ''hola'') (Some (JStr (js ''es-ES'')))
             (js ''fr'')) hostInCall)"
    using t3 [of hostInCall 2] caption_samples(8) n by blast
  have e: "translateText (js ''hola'') (Some (JStr (js ''es-ES''))) (js ''fr'') = Fetches (js ''es'') (js ''fr'')"
    using t4 [of "js ''hola''" "js ''es-ES''" "js ''fr''"]
    by (simp add: baseLanguage_def trim_def isWhiteSpace_def isHighSurrogate_def isLowSurrogate_def)
  have f: "translateText (js ''hola'') (Some (JStr (js ''fr-FR''))) (js ''fr'') = Returns (js ''hola'')"
    using t4 [of "js ''hola''" "js ''fr-FR''" "js ''fr''"]
    by (simp add: baseLanguage_def trim_def isWhiteSpace_def)
  have g: "translateText halfPair (Some (JStr (js ''es-ES''))) (js ''fr'') = Returns halfPair"
    using t4 [of halfPair "js ''es-ES''" "js ''fr''"] caption_samples2(7)
    by simp
  show ?thesis
    using a1 a2 a3 a4 b d e f g n caption_samples(1,2,3,7,8,10) caption_samples2(1,3,7)
      hostConnected_facts(1)
    by blast
qed

subsection \<open>Restarting the recognizer\<close>

lemma stale_onend:
  "recognitionRef s \<noteq> Some n \<Longrightarrow> onend n s = s\<lparr>recognitionRef := None\<rparr>"
  by (simp add: onend_def)








subsection \<open>Sending captions\<close>

lemma send_effect:
  "outbox (send b latest cl s) =
     (if sendThrows b then outbox s else outbox s @ [sentCaption b latest cl])"
  "timers (send b latest cl s) = timers s" "error (send b latest cl s) = error s"
  by (simp_all add: send_def sentCaption_def)

lemma sendCaption_open:
  assumes "channelOpen s"
  shows "outbox (sendCaption b latest cl s) =
           (if sendThrows b then outbox s else outbox s @ [sentCaption b latest cl])"
    "timers (sendCaption b latest cl s) = timers s"
    "error (sendCaption b latest cl s) = error s"
  using assms by (simp_all add: sendCaption_def send_effect)

lemma sendCaption_not_open:
  assumes "\<not> channelOpen s"
  shows "outbox (sendCaption b latest cl s) = outbox s"
    "timers (sendCaption b latest cl s) = timers s @ [(nextTimer s, RetrySendCaption latest cl)]"
    "error (sendCaption b latest cl s) = error s"
  using assms by (simp_all add: sendCaption_def setTimeout_def)

lemma retry_fires:
  assumes "map_of (timers s) t = Some (RetrySendCaption latest cl)"
  shows "outbox (timerFires b t s) =
           (if channelOpen s \<and> \<not> sendThrows b then outbox s @ [sentCaption b latest cl]
            else outbox s)"
    "timers (timerFires b t s) = filter (\<lambda>p. fst p \<noteq> t) (timers s)"
    "error (timerFires b t s) = error s"
  using assms
  by (simp_all add: timerFires_def Let_def sendCaptionRetry_def send_effect channelOpen_def)

lemma onresult_final:
  assumes "latestTranscript ev \<noteq> []" "results ev \<noteq> []" "isFinal (last (results ev))"
  shows "onresult b cl ev s = sendCaption b (latestTranscript ev) cl (s\<lparr>localCaption := latestTranscript ev\<rparr>)"
proof -
  obtain lastResult earlier where r: "rev (results ev) = lastResult # earlier"
    using assms(2) by (cases "rev (results ev)") auto
  then have "last (results ev) = lastResult" by (metis last_rev list.sel(1) rev_rev_ident hd_rev)
  then show ?thesis using assms r by (simp add: onresult_def Let_def)
qed

lemma onresult_interim:
  assumes "results ev \<noteq> []" "\<not> isFinal (last (results ev))"
  shows "outbox (onresult b cl ev s) = outbox s" "timers (onresult b cl ev s) = timers s"
proof -
  obtain lastResult earlier where r: "rev (results ev) = lastResult # earlier"
    using assms(1) by (cases "rev (results ev)") auto
  then have "last (results ev) = lastResult" by (metis last_rev list.sel(1) rev_rev_ident hd_rev)
  then show "outbox (onresult b cl ev s) = outbox s" "timers (onresult b cl ev s) = timers s"
    using assms r by (simp_all add: onresult_def Let_def)
qed

text \<open>
  Claim C9.  A final result with a transcript that is not blank leads to one call of
  \<open>sendCaption\<close>; a result that is not final sends nothing.  If the channel is open,
  \<open>sendCaption\<close> sends the caption at once and sets no timer.  If it is not, nothing is sent
  and exactly one retry timer is set.  When that timer fires, the caption is sent if the
  channel is open by then, otherwise nothing is sent; in both cases the timer is gone and
  no other timer is set, and the error of the hook is untouched throughout.
\<close>

theorem sendCaption_retries_once:
  "(latestTranscript ev \<noteq> [] \<and> results ev \<noteq> [] \<and> isFinal (last (results ev)) \<longrightarrow>
      onresult b cl ev s
        = sendCaption b (latestTranscript ev) cl (s\<lparr>localCaption := latestTranscript ev\<rparr>)) \<and>
   (results ev \<noteq> [] \<and> \<not> isFinal (last (results ev)) \<longrightarrow>
      outbox (onresult b cl ev s) = outbox s \<and> timers (onresult b cl ev s) = timers s) \<and>
   (channelOpen s \<longrightarrow>
      outbox (sendCaption b latest cl s) =
        (if sendThrows b then outbox s else outbox s @ [sentCaption b latest cl]) \<and>
      timers (sendCaption b latest cl s) = timers s \<and>
      error (sendCaption b latest cl s) = error s) \<and>
   (\<not> channelOpen s \<longrightarrow>
      outbox (sendCaption b latest cl s) = outbox s \<and>
      timers (sendCaption b latest cl s) = timers s @ [(nextTimer s, RetrySendCaption latest cl)] \<and>
      error (sendCaption b latest cl s) = error s) \<and>
   (map_of (timers s) t = Some (RetrySendCaption latest cl) \<longrightarrow>
      outbox (timerFires b t s) =
        (if channelOpen s \<and> \<not> sendThrows b then outbox s @ [sentCaption b latest cl]
         else outbox s) \<and>
      timers (timerFires b t s) = filter (\<lambda>p. fst p \<noteq> t) (timers s) \<and>
      error (timerFires b t s) = error s)"
  using onresult_final [of ev b cl s] onresult_interim [of ev b cl s]
    sendCaption_open [of s b latest cl] sendCaption_not_open [of s b latest cl]
    retry_fires [of s t latest cl b]
  by blast


lemma channelOpen_localCaption: "channelOpen (s\<lparr>localCaption := x\<rparr>) = channelOpen s"
  by (simp add: channelOpen_def)

lemma utterance_samples:
  "latestTranscript sampleUtterance \<noteq> []"
  "results sampleUtterance \<noteq> []" "isFinal (last (results sampleUtterance))"
  "channelOpen hostConnected" "\<not> channelOpen hostWithOffer"
  "outbox hostConnected = []" "outbox hostWithOffer = []"
  "timers hostWithOffer = []" "nextTimer hostWithOffer = 1"
  "\<not> sendThrows sampleBrowser"
  by (simp_all add: sampleUtterance_def latestTranscript_def channelOpen_def hostWithOffer_def
      initial_def sample_defs signaling_defs caption_defs trim_def isWhiteSpace_def)

theorem sendCaption_retries_once_witness:
  "latestTranscript sampleUtterance \<noteq> [] \<and> results sampleUtterance \<noteq> [] \<and>
   isFinal (last (results sampleUtterance)) \<and>
   channelOpen hostConnected \<and>
   outbox (onresult sampleBrowser (js ''en-US'') sampleUtterance hostConnected)
     = [sentCaption sampleBrowser (latestTranscript sampleUtterance) (js ''en-US'')] \<and>
   \<not> channelOpen hostWithOffer \<and>
   outbox (onresult sampleBrowser (js ''en-US'') sampleUtterance hostWithOffer) = [] \<and>
   timers (onresult sampleBrowser (js ''en-US'') sampleUtterance hostWithOffer)
     = [(1, RetrySendCaption (latestTranscript sampleUtterance) (js ''en-US''))] \<and>
   outbox (timerFires sampleBrowser 1
             (onresult sampleBrowser (js ''en-US'') sampleUtterance hostWithOffer)) = [] \<and>
   timers (timerFires sampleBrowser 1
             (onresult sampleBrowser (js ''en-US'') sampleUtterance hostWithOffer)) = [] \<and>
   outbox (timerFires sampleBrowser 1
             (channelStateChanges ChOpen
                (onresult sampleBrowser (js ''en-US'') sampleUtterance hostWithOffer)))
     = [sentCaption sampleBrowser (latestTranscript sampleUtterance) (js ''en-US'')]"
proof -
  define lang where "lang = js ''en-US''"
  define latest where "latest = latestTranscript sampleUtterance"
  let ?open = "hostConnected\<lparr>localCaption := latest\<rparr>"
  let ?shut = "hostWithOffer\<lparr>localCaption := latest\<rparr>"
  note t = sendCaption_retries_once
  have o: "onresult sampleBrowser lang sampleUtterance s
           = sendCaption sampleBrowser latest lang (s\<lparr>localCaption := latest\<rparr>)" for s
    using t [THEN conjunct1, of sampleUtterance sampleBrowser lang s] utterance_samples(1,2,3)
    unfolding latest_def by blast
  have a: "outbox (sendCaption sampleBrowser latest lang ?open)
           = [sentCaption sampleBrowser latest lang]"
    using t [THEN conjunct2, THEN conjunct2, THEN conjunct1, of ?open sampleBrowser latest lang]
    by (simp add: utterance_samples(4,6,10) channelOpen_localCaption)
  have b: "outbox (sendCaption sampleBrowser latest lang ?shut) = []"
    "timers (sendCaption sampleBrowser latest lang ?shut) = [(1, RetrySendCaption latest lang)]"
    using t [THEN conjunct2, THEN conjunct2, THEN conjunct2, THEN conjunct1,
        of ?shut sampleBrowser latest lang]
    by (simp_all add: utterance_samples(5,7,8,9) channelOpen_localCaption)
  define waiting where "waiting = sendCaption sampleBrowser latest lang ?shut"
  have m: "map_of (timers waiting) 1 = Some (RetrySendCaption latest lang)"
    "map_of (timers (channelStateChanges ChOpen waiting)) 1 = Some (RetrySendCaption latest lang)"
    "\<not> channelOpen waiting" "channelOpen (channelStateChanges ChOpen waiting)"
    "outbox (channelStateChanges ChOpen waiting) = []" "outbox waiting = []"
    "timers waiting = [(1, RetrySendCaption latest lang)]"
    unfolding waiting_def
    by (simp_all add: b sendCaption_def setTimeout_def channelOpen_def channelStateChanges_def
        hostWithOffer_def initial_def sample_defs signaling_defs)
  note r = t [THEN conjunct2, THEN conjunct2, THEN conjunct2, THEN conjunct2, rule_format]
  have c: "outbox (timerFires sampleBrowser 1 waiting) = []"
    "timers (timerFires sampleBrowser 1 waiting) = []"
    using r [OF m(1), of sampleBrowser] by (simp_all add: m(3,6,7))
  have d: "outbox (timerFires sampleBrowser 1 (channelStateChanges ChOpen waiting))
           = [sentCaption sampleBrowser latest lang]"
    using r [OF m(2), of sampleBrowser] by (simp add: m(4,5) utterance_samples(10))
  show ?thesis
    using utterance_samples(1,2,3,4,5) a b c d
    unfolding o [unfolded lang_def] waiting_def latest_def lang_def o by blast
qed

end
